theory Spec2Isabelle
  imports Main "HOL-Library.Word"
begin

unbundle bit_operations_syntax

section \<open>The AEAD binding of node-sodium (src/crypto_aead.cc)\<close>

text \<open>
  The file binds libsodium's AEAD functions to JavaScript. Each bound method converts
  and validates its arguments, allocates the output buffer(s), calls the libsodium
  primitive and returns the buffer on return code 0, \<^verbatim>\<open>undefined\<close> otherwise.
  The model keeps that order. libsodium is a parameter of every definition (a record of
  functions); uninitialised memory is a parameter as well.
\<close>

subsection \<open>Data\<close>

type_synonym byte = "8 word"
type_synonym bytes = "byte list"

datatype algorithm = aes256gcm | chacha20poly1305 | chacha20poly1305_ietf | xchacha20poly1305_ietf

text \<open>Modelled from the spec: \<^verbatim>\<open>crypto_aead_ALGO_KEYBYTES\<close> is a constant of libsodium's
  headers, which are not part of the sources. Every algorithm profile of the spec
  (section 3) has a key of 32 bytes.\<close>

fun KEYBYTES :: "algorithm \<Rightarrow> nat" where
  "KEYBYTES _ = 32"

text \<open>Modelled from the spec: \<^verbatim>\<open>crypto_aead_ALGO_NPUBBYTES\<close> is a constant of libsodium's
  headers, which are not part of the sources. The nonce lengths are those of the spec's
  algorithm profiles (section 3).\<close>

fun NPUBBYTES :: "algorithm \<Rightarrow> nat" where
  "NPUBBYTES aes256gcm = 12"
| "NPUBBYTES chacha20poly1305 = 8"
| "NPUBBYTES chacha20poly1305_ietf = 12"
| "NPUBBYTES xchacha20poly1305_ietf = 24"

text \<open>Modelled from the spec: \<^verbatim>\<open>crypto_aead_ALGO_ABYTES\<close> is a constant of libsodium's
  headers, which are not part of the sources. Every algorithm profile of the spec
  (section 3) has a tag of 16 bytes.\<close>

fun ABYTES :: "algorithm \<Rightarrow> nat" where
  "ABYTES _ = 16"

text \<open>A JavaScript argument: a Buffer, or \<^verbatim>\<open>null\<close> (no value).\<close>

datatype js_value = Buffer bytes | Null

text \<open>
  The failures, named as in the spec's taxonomy (section 7). In the code a validation
  failure is a thrown JavaScript error; a failure of the primitive is the return value
  \<^verbatim>\<open>undefined\<close>: \<open>AuthenticationFailed\<close> when a decrypt method returns it,
  \<open>EncryptionFailed\<close> when an encrypt method does, \<open>KeySetupFailed\<close> when
  \<^verbatim>\<open>beforenm\<close> does (the spec has no name for the last one). No path of the file
  produces \<open>UnsupportedAlgorithm\<close>.
\<close>

datatype error =
    InvalidArgument
  | InvalidLength
  | UnsupportedAlgorithm
  | AuthenticationFailed
  | EncryptionFailed
  | KeySetupFailed

text \<open>The libsodium transforms a method can call.\<close>

datatype prim_call =
    Call_beforenm
  | Call_encrypt_afternm
  | Call_decrypt_afternm
  | Call_encrypt_detached_afternm
  | Call_decrypt_detached_afternm
  | Call_encrypt algorithm
  | Call_decrypt algorithm
  | Call_encrypt_detached algorithm
  | Call_decrypt_detached algorithm

text \<open>
  What a method does: the transforms it called, in order, and what it hands back to
  JavaScript.
\<close>

record 'a reply =
  calls :: "prim_call list"
  outcome :: "error + 'a"

definition threw :: "error \<Rightarrow> 'a reply" where
  "threw e = \<lparr>calls = [], outcome = Inl e\<rparr>"

text \<open>The object \<^verbatim>\<open>{ cipherText: <buffer>, mac: <buffer> }\<close> of the detached methods.\<close>

record detached =
  cipherText :: bytes
  mac :: bytes

subsection \<open>libsodium, the external primitive\<close>

text \<open>
  Every transform returns its C return code and the bytes it stored through its output
  pointer(s). The arguments are those the C call receives, without the output pointers,
  the unused \<^verbatim>\<open>nsec\<close> and the length out-parameters; associated data is \<open>None\<close> for
  a NULL pointer (its size is then 0).
\<close>

record sodium =
  sodium_is_available :: int
  sodium_statebytes :: nat
  sodium_beforenm :: "bytes \<Rightarrow> int \<times> bytes"
  sodium_encrypt_afternm :: "bytes \<Rightarrow> bytes option \<Rightarrow> bytes \<Rightarrow> bytes \<Rightarrow> int \<times> bytes"
  sodium_decrypt_afternm :: "bytes \<Rightarrow> bytes option \<Rightarrow> bytes \<Rightarrow> bytes \<Rightarrow> int \<times> bytes"
  sodium_encrypt_detached_afternm ::
    "bytes \<Rightarrow> bytes option \<Rightarrow> bytes \<Rightarrow> bytes \<Rightarrow> int \<times> bytes \<times> bytes"
  sodium_decrypt_detached_afternm ::
    "bytes \<Rightarrow> bytes \<Rightarrow> bytes option \<Rightarrow> bytes \<Rightarrow> bytes \<Rightarrow> int \<times> bytes"
  sodium_encrypt :: "algorithm \<Rightarrow> bytes \<Rightarrow> bytes option \<Rightarrow> bytes \<Rightarrow> bytes \<Rightarrow> int \<times> bytes"
  sodium_decrypt :: "algorithm \<Rightarrow> bytes \<Rightarrow> bytes option \<Rightarrow> bytes \<Rightarrow> bytes \<Rightarrow> int \<times> bytes"
  sodium_encrypt_detached ::
    "algorithm \<Rightarrow> bytes \<Rightarrow> bytes option \<Rightarrow> bytes \<Rightarrow> bytes \<Rightarrow> int \<times> bytes \<times> bytes"
  sodium_decrypt_detached ::
    "algorithm \<Rightarrow> bytes \<Rightarrow> bytes \<Rightarrow> bytes option \<Rightarrow> bytes \<Rightarrow> bytes \<Rightarrow> int \<times> bytes"

subsection \<open>Memory\<close>

text \<open>
  \<open>heap\<close> gives the byte that lies at each offset of memory nobody has written yet.
\<close>

type_synonym heap = "nat \<Rightarrow> byte"

text \<open>Modelled from the spec: \<^verbatim>\<open>NEW_BUFFER_AND_PTR(name, size)\<close> is a macro of
  node_sodium.h, which is not part of the sources. It allocates a fresh Buffer of
  \<open>size\<close> bytes and takes a pointer to its data; the spec (section 4.3) treats the
  memory as uninitialised until it is zeroed. \<open>off\<close> is where the allocation lies.\<close>

definition NEW_BUFFER :: "heap \<Rightarrow> nat \<Rightarrow> nat \<Rightarrow> bytes" where
  "NEW_BUFFER h off n = map h [off..<off + n]"

text \<open>Modelled from the spec: \<^verbatim>\<open>sodium_memzero(ptr, len)\<close> is a function of libsodium.
  It sets the first \<open>len\<close> bytes at the pointer to zero (section 4.3: the output buffer
  is zero-initialised before the transform runs).\<close>

definition sodium_memzero :: "bytes \<Rightarrow> nat \<Rightarrow> bytes" where
  "sodium_memzero buf n = replicate (min n (length buf)) 0 @ drop n buf"

text \<open>
  The buffer after a primitive stored \<open>written\<close> through the pointer to its start:
  a Buffer keeps the length it was allocated with, and bytes not written keep their
  value.
\<close>

definition stored :: "bytes \<Rightarrow> bytes \<Rightarrow> bytes" where
  "stored buf written = take (length buf) (written @ drop (length written) buf)"

subsection \<open>Argument conversion\<close>

text \<open>
  The macros that turn a JavaScript argument into a pointer and a size live in
  node_sodium.h, which is not part of the sources. In the spec's taxonomy (section 7) an
  argument of the wrong shape is \<open>InvalidArgument\<close> and a failed length requirement
  is \<open>InvalidLength\<close>. \<^verbatim>\<open>ARGS(n, message)\<close> checks the number of arguments, which is
  fixed in the model.
\<close>

text \<open>Modelled from the spec: \<^verbatim>\<open>ARG_TO_UCHAR_BUFFER(name)\<close>, a macro of node_sodium.h. The
  argument must be a Buffer; a message is a byte sequence of any length, zero included
  (section 3).\<close>

definition ARG_TO_UCHAR_BUFFER :: "js_value \<Rightarrow> error + bytes" where
  "ARG_TO_UCHAR_BUFFER v = (case v of Buffer b \<Rightarrow> Inr b | Null \<Rightarrow> Inl InvalidArgument)"

text \<open>Modelled from the spec: \<^verbatim>\<open>ARG_TO_UCHAR_BUFFER_OR_NULL(name)\<close>, a macro of
  node_sodium.h. Associated data is optional: absent (a NULL pointer, size 0) or a
  Buffer of any length, and the two are distinct (section 3).\<close>

definition ARG_TO_UCHAR_BUFFER_OR_NULL :: "js_value \<Rightarrow> bytes option" where
  "ARG_TO_UCHAR_BUFFER_OR_NULL v = (case v of Buffer b \<Rightarrow> Some b | Null \<Rightarrow> None)"

text \<open>Modelled from the spec: \<^verbatim>\<open>ARG_TO_UCHAR_BUFFER_LEN(name, len)\<close>, a macro of
  node_sodium.h. It makes one check, that the argument is a Buffer of exactly \<open>len\<close>
  bytes, and the spec has one name for the failure of that check, \<open>InvalidLength\<close>
  (sections 4.2 to 4.4; the interface table of section 6 gives the operations no other
  validation failure). The errors the code throws carry no type of their own; a missing
  value has no bytes of the required length and fails the check like a Buffer of another
  length.\<close>

definition ARG_TO_UCHAR_BUFFER_LEN :: "js_value \<Rightarrow> nat \<Rightarrow> error + bytes" where
  "ARG_TO_UCHAR_BUFFER_LEN v n =
     (case v of
        Buffer b \<Rightarrow> if length b = n then Inr b else Inl InvalidLength
      | Null \<Rightarrow> Inl InvalidLength)"

subsection \<open>The methods of the file\<close>

text \<open>\<^verbatim>\<open>crypto_aead_aes256gcm_is_available\<close> (lines 129 to 138).\<close>

definition crypto_aead_aes256gcm_is_available :: "sodium \<Rightarrow> bool" where
  "crypto_aead_aes256gcm_is_available P = (if sodium_is_available P = 1 then True else False)"

text \<open>\<^verbatim>\<open>crypto_aead_aes256gcm_beforenm\<close> (lines 160 to 174).\<close>

definition crypto_aead_aes256gcm_beforenm :: "sodium \<Rightarrow> heap \<Rightarrow> js_value \<Rightarrow> bytes reply" where
  "crypto_aead_aes256gcm_beforenm P h key_arg =
     (case ARG_TO_UCHAR_BUFFER_LEN key_arg (KEYBYTES aes256gcm) of
        Inl e \<Rightarrow> threw e
      | Inr key \<Rightarrow>
          (let ctxt = NEW_BUFFER h 0 (sodium_statebytes P);
               (rc, written) = sodium_beforenm P key
           in if rc = 0
              then \<lparr>calls = [Call_beforenm], outcome = Inr (stored ctxt written)\<rparr>
              else \<lparr>calls = [Call_beforenm], outcome = Inl KeySetupFailed\<rparr>))"

text \<open>
  \<^verbatim>\<open>crypto_aead_aes256gcm_encrypt_afternm\<close> (lines 198 to 215). Lines 207 to 211, the
  allocation, the zeroing and the call, are \<open>encrypt_afternm_transform\<close>: the return
  code and the content of \<open>c\<close> after the call.
\<close>

definition encrypt_afternm_transform ::
  "sodium \<Rightarrow> heap \<Rightarrow> bytes \<Rightarrow> bytes option \<Rightarrow> bytes \<Rightarrow> bytes \<Rightarrow> int \<times> bytes" where
  "encrypt_afternm_transform P h m ad npub ctx =
     (let c = NEW_BUFFER h 0 (ABYTES aes256gcm + length m);
          c = sodium_memzero c (ABYTES aes256gcm + length m);
          (rc, written) = sodium_encrypt_afternm P m ad npub ctx
      in (rc, stored c written))"

definition crypto_aead_aes256gcm_encrypt_afternm ::
  "sodium \<Rightarrow> heap \<Rightarrow> js_value \<Rightarrow> js_value \<Rightarrow> js_value \<Rightarrow> js_value \<Rightarrow> bytes reply" where
  "crypto_aead_aes256gcm_encrypt_afternm P h m_arg ad_arg npub_arg ctx_arg =
     (case ARG_TO_UCHAR_BUFFER m_arg of
        Inl e \<Rightarrow> threw e
      | Inr m \<Rightarrow>
     (let ad = ARG_TO_UCHAR_BUFFER_OR_NULL ad_arg in
      case ARG_TO_UCHAR_BUFFER_LEN npub_arg (NPUBBYTES aes256gcm) of
        Inl e \<Rightarrow> threw e
      | Inr npub \<Rightarrow>
      case ARG_TO_UCHAR_BUFFER_LEN ctx_arg (sodium_statebytes P) of
        Inl e \<Rightarrow> threw e
      | Inr ctx \<Rightarrow>
          (let (rc, c) = encrypt_afternm_transform P h m ad npub ctx
           in if rc = 0
              then \<lparr>calls = [Call_encrypt_afternm], outcome = Inr c\<rparr>
              else \<lparr>calls = [Call_encrypt_afternm], outcome = Inl EncryptionFailed\<rparr>)))"

text \<open>
  \<^verbatim>\<open>crypto_aead_aes256gcm_decrypt_afternm\<close> (lines 238 to 261). The length of the
  cipher text is checked right after its conversion, before the other arguments are
  looked at.
\<close>

definition crypto_aead_aes256gcm_decrypt_afternm ::
  "sodium \<Rightarrow> heap \<Rightarrow> js_value \<Rightarrow> js_value \<Rightarrow> js_value \<Rightarrow> js_value \<Rightarrow> bytes reply" where
  "crypto_aead_aes256gcm_decrypt_afternm P h c_arg ad_arg npub_arg ctx_arg =
     (case ARG_TO_UCHAR_BUFFER c_arg of
        Inl e \<Rightarrow> threw e
      | Inr c \<Rightarrow>
      if length c < ABYTES aes256gcm then threw InvalidLength
      else
     (let ad = ARG_TO_UCHAR_BUFFER_OR_NULL ad_arg in
      case ARG_TO_UCHAR_BUFFER_LEN npub_arg (NPUBBYTES aes256gcm) of
        Inl e \<Rightarrow> threw e
      | Inr npub \<Rightarrow>
      case ARG_TO_UCHAR_BUFFER_LEN ctx_arg (sodium_statebytes P) of
        Inl e \<Rightarrow> threw e
      | Inr ctx \<Rightarrow>
          (let m = NEW_BUFFER h 0 (length c - ABYTES aes256gcm);
               (rc, written) = sodium_decrypt_afternm P c ad npub ctx
           in if rc = 0
              then \<lparr>calls = [Call_decrypt_afternm], outcome = Inr (stored m written)\<rparr>
              else \<lparr>calls = [Call_decrypt_afternm], outcome = Inl AuthenticationFailed\<rparr>)))"

text \<open>
  \<^verbatim>\<open>crypto_aead_aes256gcm_encrypt_detached_afternm\<close> (lines 315 to 335). Lines 324 to
  327, the two allocations and the call, are \<open>encrypt_detached_afternm_transform\<close>:
  the return code and the contents of \<open>c\<close> and \<open>mac\<close> after the call. Neither buffer
  is zeroed.
\<close>

definition encrypt_detached_afternm_transform ::
  "sodium \<Rightarrow> heap \<Rightarrow> bytes \<Rightarrow> bytes option \<Rightarrow> bytes \<Rightarrow> bytes \<Rightarrow> int \<times> bytes \<times> bytes" where
  "encrypt_detached_afternm_transform P h m ad npub ctx =
     (let c = NEW_BUFFER h 0 (length m);
          mac_buf = NEW_BUFFER h (length m) (ABYTES aes256gcm);
          (rc, written_c, written_mac) = sodium_encrypt_detached_afternm P m ad npub ctx
      in (rc, stored c written_c, stored mac_buf written_mac))"

definition crypto_aead_aes256gcm_encrypt_detached_afternm ::
  "sodium \<Rightarrow> heap \<Rightarrow> js_value \<Rightarrow> js_value \<Rightarrow> js_value \<Rightarrow> js_value \<Rightarrow> detached reply" where
  "crypto_aead_aes256gcm_encrypt_detached_afternm P h m_arg ad_arg npub_arg ctx_arg =
     (case ARG_TO_UCHAR_BUFFER m_arg of
        Inl e \<Rightarrow> threw e
      | Inr m \<Rightarrow>
     (let ad = ARG_TO_UCHAR_BUFFER_OR_NULL ad_arg in
      case ARG_TO_UCHAR_BUFFER_LEN npub_arg (NPUBBYTES aes256gcm) of
        Inl e \<Rightarrow> threw e
      | Inr npub \<Rightarrow>
      case ARG_TO_UCHAR_BUFFER_LEN ctx_arg (sodium_statebytes P) of
        Inl e \<Rightarrow> threw e
      | Inr ctx \<Rightarrow>
          (let (rc, c, mac_buf) = encrypt_detached_afternm_transform P h m ad npub ctx
           in if rc = 0
              then \<lparr>calls = [Call_encrypt_detached_afternm],
                    outcome = Inr \<lparr>cipherText = c, mac = mac_buf\<rparr>\<rparr>
              else \<lparr>calls = [Call_encrypt_detached_afternm],
                    outcome = Inl EncryptionFailed\<rparr>)))"

text \<open>
  \<^verbatim>\<open>crypto_aead_aes256gcm_decrypt_detached_afternm\<close> (lines 361 to 378): five
  arguments, the tag second.
\<close>

definition crypto_aead_aes256gcm_decrypt_detached_afternm ::
  "sodium \<Rightarrow> heap \<Rightarrow> js_value \<Rightarrow> js_value \<Rightarrow> js_value \<Rightarrow> js_value \<Rightarrow> js_value \<Rightarrow> bytes reply"
  where
  "crypto_aead_aes256gcm_decrypt_detached_afternm P h c_arg mac_arg ad_arg npub_arg ctx_arg =
     (case ARG_TO_UCHAR_BUFFER c_arg of
        Inl e \<Rightarrow> threw e
      | Inr c \<Rightarrow>
      case ARG_TO_UCHAR_BUFFER_LEN mac_arg (ABYTES aes256gcm) of
        Inl e \<Rightarrow> threw e
      | Inr mac_buf \<Rightarrow>
     (let ad = ARG_TO_UCHAR_BUFFER_OR_NULL ad_arg in
      case ARG_TO_UCHAR_BUFFER_LEN npub_arg (NPUBBYTES aes256gcm) of
        Inl e \<Rightarrow> threw e
      | Inr npub \<Rightarrow>
      case ARG_TO_UCHAR_BUFFER_LEN ctx_arg (sodium_statebytes P) of
        Inl e \<Rightarrow> threw e
      | Inr ctx \<Rightarrow>
          (let m = NEW_BUFFER h 0 (length c);
               (rc, written) = sodium_decrypt_detached_afternm P c mac_buf ad npub ctx
           in if rc = 0
              then \<lparr>calls = [Call_decrypt_detached_afternm], outcome = Inr (stored m written)\<rparr>
              else \<lparr>calls = [Call_decrypt_detached_afternm],
                    outcome = Inl AuthenticationFailed\<rparr>)))"

subsection \<open>The methods the macros generate\<close>

text \<open>
  \<^verbatim>\<open>CRYPTO_AEAD_DEF(ALGO)\<close> and \<^verbatim>\<open>CRYPTO_AEAD_DETACHED_DEF(ALGO)\<close> (lines 447 to 597)
  are macros of crypto_aead.h, which is not part of the sources. They generate, for each
  of the four algorithms, the methods \<^verbatim>\<open>crypto_aead_ALGO_encrypt\<close>, \<^verbatim>\<open>_decrypt\<close>,
  \<^verbatim>\<open>_encrypt_detached\<close> and \<^verbatim>\<open>_decrypt_detached\<close>, which take a raw key. The spec
  (sections 4.3 to 4.5) gives them the validation, the buffers and the results of the
  context methods above, with a key of exactly \<open>KEYBYTES\<close> bytes in place of the
  context and the entry point of the primitive that takes a key.
\<close>

text \<open>Modelled from the spec: \<^verbatim>\<open>crypto_aead_ALGO_encrypt\<close>, generated by
  \<^verbatim>\<open>CRYPTO_AEAD_DEF\<close> (crypto_aead.h, not part of the sources). Section 4.3: nonce and
  key of exact length, output buffer zeroed before the transform, \<open>EncryptionFailed\<close>
  when the primitive fails.\<close>

definition crypto_aead_encrypt ::
  "sodium \<Rightarrow> heap \<Rightarrow> algorithm \<Rightarrow> js_value \<Rightarrow> js_value \<Rightarrow> js_value \<Rightarrow> js_value \<Rightarrow> bytes reply"
  where
  "crypto_aead_encrypt P h a m_arg ad_arg npub_arg key_arg =
     (case ARG_TO_UCHAR_BUFFER m_arg of
        Inl e \<Rightarrow> threw e
      | Inr m \<Rightarrow>
     (let ad = ARG_TO_UCHAR_BUFFER_OR_NULL ad_arg in
      case ARG_TO_UCHAR_BUFFER_LEN npub_arg (NPUBBYTES a) of
        Inl e \<Rightarrow> threw e
      | Inr npub \<Rightarrow>
      case ARG_TO_UCHAR_BUFFER_LEN key_arg (KEYBYTES a) of
        Inl e \<Rightarrow> threw e
      | Inr key \<Rightarrow>
          (let c = NEW_BUFFER h 0 (ABYTES a + length m);
               c = sodium_memzero c (ABYTES a + length m);
               (rc, written) = sodium_encrypt P a m ad npub key
           in if rc = 0
              then \<lparr>calls = [Call_encrypt a], outcome = Inr (stored c written)\<rparr>
              else \<lparr>calls = [Call_encrypt a], outcome = Inl EncryptionFailed\<rparr>)))"

text \<open>Modelled from the spec: \<^verbatim>\<open>crypto_aead_ALGO_decrypt\<close>, generated by
  \<^verbatim>\<open>CRYPTO_AEAD_DEF\<close> (crypto_aead.h, not part of the sources). Section 4.3: the
  length of the cipher text is checked first, then nonce and key; \<open>AuthenticationFailed\<close>
  when the primitive rejects the tag.\<close>

definition crypto_aead_decrypt ::
  "sodium \<Rightarrow> heap \<Rightarrow> algorithm \<Rightarrow> js_value \<Rightarrow> js_value \<Rightarrow> js_value \<Rightarrow> js_value \<Rightarrow> bytes reply"
  where
  "crypto_aead_decrypt P h a c_arg ad_arg npub_arg key_arg =
     (case ARG_TO_UCHAR_BUFFER c_arg of
        Inl e \<Rightarrow> threw e
      | Inr c \<Rightarrow>
      if length c < ABYTES a then threw InvalidLength
      else
     (let ad = ARG_TO_UCHAR_BUFFER_OR_NULL ad_arg in
      case ARG_TO_UCHAR_BUFFER_LEN npub_arg (NPUBBYTES a) of
        Inl e \<Rightarrow> threw e
      | Inr npub \<Rightarrow>
      case ARG_TO_UCHAR_BUFFER_LEN key_arg (KEYBYTES a) of
        Inl e \<Rightarrow> threw e
      | Inr key \<Rightarrow>
          (let m = NEW_BUFFER h 0 (length c - ABYTES a);
               (rc, written) = sodium_decrypt P a c ad npub key
           in if rc = 0
              then \<lparr>calls = [Call_decrypt a], outcome = Inr (stored m written)\<rparr>
              else \<lparr>calls = [Call_decrypt a], outcome = Inl AuthenticationFailed\<rparr>)))"

text \<open>Modelled from the spec: \<^verbatim>\<open>crypto_aead_ALGO_encrypt_detached\<close>, generated by
  \<^verbatim>\<open>CRYPTO_AEAD_DETACHED_DEF\<close> (crypto_aead.h, not part of the sources). Section 4.4:
  the validation of combined encrypt, two output buffers; as in the context method of the
  file, neither is zeroed.\<close>

definition crypto_aead_encrypt_detached ::
  "sodium \<Rightarrow> heap \<Rightarrow> algorithm \<Rightarrow> js_value \<Rightarrow> js_value \<Rightarrow> js_value \<Rightarrow> js_value
     \<Rightarrow> detached reply"
  where
  "crypto_aead_encrypt_detached P h a m_arg ad_arg npub_arg key_arg =
     (case ARG_TO_UCHAR_BUFFER m_arg of
        Inl e \<Rightarrow> threw e
      | Inr m \<Rightarrow>
     (let ad = ARG_TO_UCHAR_BUFFER_OR_NULL ad_arg in
      case ARG_TO_UCHAR_BUFFER_LEN npub_arg (NPUBBYTES a) of
        Inl e \<Rightarrow> threw e
      | Inr npub \<Rightarrow>
      case ARG_TO_UCHAR_BUFFER_LEN key_arg (KEYBYTES a) of
        Inl e \<Rightarrow> threw e
      | Inr key \<Rightarrow>
          (let c = NEW_BUFFER h 0 (length m);
               mac_buf = NEW_BUFFER h (length m) (ABYTES a);
               (rc, written_c, written_mac) = sodium_encrypt_detached P a m ad npub key
           in if rc = 0
              then \<lparr>calls = [Call_encrypt_detached a],
                    outcome = Inr \<lparr>cipherText = stored c written_c,
                                   mac = stored mac_buf written_mac\<rparr>\<rparr>
              else \<lparr>calls = [Call_encrypt_detached a], outcome = Inl EncryptionFailed\<rparr>)))"

text \<open>Modelled from the spec: \<^verbatim>\<open>crypto_aead_ALGO_decrypt_detached\<close>, generated by
  \<^verbatim>\<open>CRYPTO_AEAD_DETACHED_DEF\<close> (crypto_aead.h, not part of the sources). Section 4.4:
  cipher text and tag are separate arguments and the tag has exactly \<open>ABYTES\<close>
  bytes.\<close>

definition crypto_aead_decrypt_detached ::
  "sodium \<Rightarrow> heap \<Rightarrow> algorithm \<Rightarrow> js_value \<Rightarrow> js_value \<Rightarrow> js_value \<Rightarrow> js_value \<Rightarrow> js_value
     \<Rightarrow> bytes reply"
  where
  "crypto_aead_decrypt_detached P h a c_arg mac_arg ad_arg npub_arg key_arg =
     (case ARG_TO_UCHAR_BUFFER c_arg of
        Inl e \<Rightarrow> threw e
      | Inr c \<Rightarrow>
      case ARG_TO_UCHAR_BUFFER_LEN mac_arg (ABYTES a) of
        Inl e \<Rightarrow> threw e
      | Inr mac_buf \<Rightarrow>
     (let ad = ARG_TO_UCHAR_BUFFER_OR_NULL ad_arg in
      case ARG_TO_UCHAR_BUFFER_LEN npub_arg (NPUBBYTES a) of
        Inl e \<Rightarrow> threw e
      | Inr npub \<Rightarrow>
      case ARG_TO_UCHAR_BUFFER_LEN key_arg (KEYBYTES a) of
        Inl e \<Rightarrow> threw e
      | Inr key \<Rightarrow>
          (let m = NEW_BUFFER h 0 (length c);
               (rc, written) = sodium_decrypt_detached P a c mac_buf ad npub key
           in if rc = 0
              then \<lparr>calls = [Call_decrypt_detached a], outcome = Inr (stored m written)\<rparr>
              else \<lparr>calls = [Call_decrypt_detached a], outcome = Inl AuthenticationFailed\<rparr>)))"

subsection \<open>What the binding expects of libsodium\<close>

text \<open>
  The binding adds no cryptography: what it returns is what libsodium stored. The
  properties below are libsodium's documented behaviour, stated on the record; the
  theorems that need one of them take it as a hypothesis.

  \<open>sodium_roundtrip\<close>: an encryption that returns 0 stores the whole cipher text (and
  tag), and the matching decryption of it returns 0 and stores the message.
\<close>

definition sodium_roundtrip :: "sodium \<Rightarrow> bool" where
  "sodium_roundtrip P \<longleftrightarrow>
     (\<forall>m ad npub ctx c.
        length npub = NPUBBYTES aes256gcm \<and> length ctx = sodium_statebytes P \<and>
        sodium_encrypt_afternm P m ad npub ctx = (0, c) \<longrightarrow>
        length c = ABYTES aes256gcm + length m \<and>
        sodium_decrypt_afternm P c ad npub ctx = (0, m)) \<and>
     (\<forall>m ad npub ctx c t.
        length npub = NPUBBYTES aes256gcm \<and> length ctx = sodium_statebytes P \<and>
        sodium_encrypt_detached_afternm P m ad npub ctx = (0, c, t) \<longrightarrow>
        length c = length m \<and> length t = ABYTES aes256gcm \<and>
        sodium_decrypt_detached_afternm P c t ad npub ctx = (0, m)) \<and>
     (\<forall>a m ad npub key c.
        length npub = NPUBBYTES a \<and> length key = KEYBYTES a \<and>
        sodium_encrypt P a m ad npub key = (0, c) \<longrightarrow>
        length c = ABYTES a + length m \<and>
        sodium_decrypt P a c ad npub key = (0, m)) \<and>
     (\<forall>a m ad npub key c t.
        length npub = NPUBBYTES a \<and> length key = KEYBYTES a \<and>
        sodium_encrypt_detached P a m ad npub key = (0, c, t) \<longrightarrow>
        length c = length m \<and> length t = ABYTES a \<and>
        sodium_decrypt_detached P a c t ad npub key = (0, m))"

text \<open>
  \<open>sodium_layout\<close>: combined encryption stores the cipher text of detached encryption
  followed by its tag, with the same return code.
\<close>

definition sodium_layout :: "sodium \<Rightarrow> bool" where
  "sodium_layout P \<longleftrightarrow>
     (\<forall>m ad npub ctx rc c t.
        length npub = NPUBBYTES aes256gcm \<and> length ctx = sodium_statebytes P \<and>
        sodium_encrypt_detached_afternm P m ad npub ctx = (rc, c, t) \<longrightarrow>
        length c = length m \<and> length t = ABYTES aes256gcm \<and>
        sodium_encrypt_afternm P m ad npub ctx = (rc, c @ t)) \<and>
     (\<forall>a m ad npub key rc c t.
        length npub = NPUBBYTES a \<and> length key = KEYBYTES a \<and>
        sodium_encrypt_detached P a m ad npub key = (rc, c, t) \<longrightarrow>
        length c = length m \<and> length t = ABYTES a \<and>
        sodium_encrypt P a m ad npub key = (rc, c @ t))"

text \<open>
  \<open>sodium_precompute\<close>: \<^verbatim>\<open>beforenm\<close> returns 0 and fills the whole state (the comment
  at line 147: it "always returns 0"), and a transform that takes the key does what
  its \<^verbatim>\<open>afternm\<close> variant does with that state.
\<close>

definition sodium_precompute :: "sodium \<Rightarrow> bool" where
  "sodium_precompute P \<longleftrightarrow>
     (\<forall>key. length key = KEYBYTES aes256gcm \<longrightarrow>
        fst (sodium_beforenm P key) = 0 \<and>
        length (snd (sodium_beforenm P key)) = sodium_statebytes P \<and>
        (\<forall>x ad npub. length npub = NPUBBYTES aes256gcm \<longrightarrow>
           sodium_encrypt P aes256gcm x ad npub key =
             sodium_encrypt_afternm P x ad npub (snd (sodium_beforenm P key)) \<and>
           sodium_decrypt P aes256gcm x ad npub key =
             sodium_decrypt_afternm P x ad npub (snd (sodium_beforenm P key)) \<and>
           sodium_encrypt_detached P aes256gcm x ad npub key =
             sodium_encrypt_detached_afternm P x ad npub (snd (sodium_beforenm P key)) \<and>
           (\<forall>t. sodium_decrypt_detached P aes256gcm x t ad npub key =
             sodium_decrypt_detached_afternm P x t ad npub (snd (sodium_beforenm P key)))))"

subsection \<open>A test double for libsodium\<close>

text \<open>
  \<open>xor_sodium\<close> has libsodium's interface and none of its cryptography: the pad is one
  byte, the sum of the key and nonce bytes; the tag is sixteen copies of a checksum of
  pad, cipher text and associated data; the state is the key twice. It is the concrete
  primitive at which the theorems below are instantiated.
\<close>

definition xor_pad :: "bytes \<Rightarrow> bytes \<Rightarrow> byte" where
  "xor_pad key npub = sum_list key + sum_list npub"

definition xor_text :: "bytes \<Rightarrow> bytes \<Rightarrow> bytes \<Rightarrow> bytes" where
  "xor_text key npub m = map (\<lambda>b. b XOR xor_pad key npub) m"

definition xor_tag :: "bytes \<Rightarrow> bytes \<Rightarrow> bytes \<Rightarrow> bytes option \<Rightarrow> bytes" where
  "xor_tag key npub c ad =
     replicate 16 (xor_pad key npub + sum_list c +
                   sum_list (case ad of None \<Rightarrow> [] | Some x \<Rightarrow> x))"

definition xor_encrypt_detached ::
  "bytes \<Rightarrow> bytes option \<Rightarrow> bytes \<Rightarrow> bytes \<Rightarrow> int \<times> bytes \<times> bytes" where
  "xor_encrypt_detached m ad npub key =
     (0, xor_text key npub m, xor_tag key npub (xor_text key npub m) ad)"

definition xor_decrypt_detached ::
  "bytes \<Rightarrow> bytes \<Rightarrow> bytes option \<Rightarrow> bytes \<Rightarrow> bytes \<Rightarrow> int \<times> bytes" where
  "xor_decrypt_detached c t ad npub key =
     (if t = xor_tag key npub c ad then (0, xor_text key npub c) else (- 1, []))"

definition xor_encrypt :: "bytes \<Rightarrow> bytes option \<Rightarrow> bytes \<Rightarrow> bytes \<Rightarrow> int \<times> bytes" where
  "xor_encrypt m ad npub key =
     (0, xor_text key npub m @ xor_tag key npub (xor_text key npub m) ad)"

definition xor_decrypt :: "bytes \<Rightarrow> bytes option \<Rightarrow> bytes \<Rightarrow> bytes \<Rightarrow> int \<times> bytes" where
  "xor_decrypt c ad npub key =
     xor_decrypt_detached (take (length c - 16) c) (drop (length c - 16) c) ad npub key"

definition xor_sodium :: sodium where
  "xor_sodium =
     \<lparr>sodium_is_available = 1,
      sodium_statebytes = 64,
      sodium_beforenm = (\<lambda>key. (0, key @ key)),
      sodium_encrypt_afternm = (\<lambda>m ad npub ctx. xor_encrypt m ad npub (take 32 ctx)),
      sodium_decrypt_afternm = (\<lambda>c ad npub ctx. xor_decrypt c ad npub (take 32 ctx)),
      sodium_encrypt_detached_afternm =
        (\<lambda>m ad npub ctx. xor_encrypt_detached m ad npub (take 32 ctx)),
      sodium_decrypt_detached_afternm =
        (\<lambda>c t ad npub ctx. xor_decrypt_detached c t ad npub (take 32 ctx)),
      sodium_encrypt = (\<lambda>a. xor_encrypt),
      sodium_decrypt = (\<lambda>a. xor_decrypt),
      sodium_encrypt_detached = (\<lambda>a. xor_encrypt_detached),
      sodium_decrypt_detached = (\<lambda>a. xor_decrypt_detached)\<rparr>"

text \<open>
  \<open>failing_sodium\<close> reports the hardware as missing and every transform returns -1
  without storing a byte.
\<close>

definition failing_sodium :: sodium where
  "failing_sodium =
     \<lparr>sodium_is_available = 0,
      sodium_statebytes = 64,
      sodium_beforenm = (\<lambda>key. (- 1, [])),
      sodium_encrypt_afternm = (\<lambda>m ad npub ctx. (- 1, [])),
      sodium_decrypt_afternm = (\<lambda>c ad npub ctx. (- 1, [])),
      sodium_encrypt_detached_afternm = (\<lambda>m ad npub ctx. (- 1, [], [])),
      sodium_decrypt_detached_afternm = (\<lambda>c t ad npub ctx. (- 1, [])),
      sodium_encrypt = (\<lambda>a m ad npub key. (- 1, [])),
      sodium_decrypt = (\<lambda>a c ad npub key. (- 1, [])),
      sodium_encrypt_detached = (\<lambda>a m ad npub key. (- 1, [], [])),
      sodium_decrypt_detached = (\<lambda>a c t ad npub key. (- 1, []))\<rparr>"

text \<open>Concrete arguments for the instances: a heap of 0xAA bytes, a nonce, a key and
  the state \<open>xor_sodium\<close> derives from that key.\<close>

definition demo_heap :: heap where
  "demo_heap = (\<lambda>_. 170)"

definition demo_npub :: bytes where
  "demo_npub = replicate 12 7"

definition demo_key :: bytes where
  "demo_key = replicate 32 9"

definition demo_ctx :: bytes where
  "demo_ctx = demo_key @ demo_key"

subsection \<open>Basic facts\<close>

lemmas conv_defs =
  ARG_TO_UCHAR_BUFFER_def ARG_TO_UCHAR_BUFFER_OR_NULL_def ARG_TO_UCHAR_BUFFER_LEN_def threw_def

lemma length_NEW_BUFFER: "length (NEW_BUFFER h off n) = n"
  by (simp add: NEW_BUFFER_def)

lemma length_stored: "length (stored buf written) = length buf"
  by (simp add: stored_def)

lemma stored_full: "length written = length buf \<Longrightarrow> stored buf written = written"
  by (simp add: stored_def)

lemma stored_nothing: "stored buf [] = buf"
  by (simp add: stored_def)

lemma sodium_memzero_all: "length buf = n \<Longrightarrow> sodium_memzero buf n = replicate n 0"
  by (simp add: sodium_memzero_def)

lemma zeroed_NEW_BUFFER: "sodium_memzero (NEW_BUFFER h off n) n = replicate n 0"
  by (simp add: sodium_memzero_all length_NEW_BUFFER)

text \<open>The combined encryption, after the zeroing, no longer mentions the heap.\<close>

lemma encrypt_afternm_transform_eq:
  "encrypt_afternm_transform P h m ad npub ctx =
     (case sodium_encrypt_afternm P m ad npub ctx of
        (rc, written) \<Rightarrow> (rc, stored (replicate (ABYTES aes256gcm + length m) 0) written))"
  by (simp add: encrypt_afternm_transform_def Let_def zeroed_NEW_BUFFER split: prod.splits)

subsection \<open>When a method returns a value\<close>

text \<open>
  Each method returns a value on one path only: every argument passed its conversion
  and the primitive returned 0. The lemmas below read that path off the definition.
\<close>

lemma encrypt_afternm_Inr:
  assumes "outcome (crypto_aead_aes256gcm_encrypt_afternm P h m_arg ad_arg npub_arg ctx_arg) = Inr c"
  obtains m npub ctx written where
    "m_arg = Buffer m" "npub_arg = Buffer npub" "ctx_arg = Buffer ctx"
    "length npub = NPUBBYTES aes256gcm" "length ctx = sodium_statebytes P"
    "sodium_encrypt_afternm P m (ARG_TO_UCHAR_BUFFER_OR_NULL ad_arg) npub ctx = (0, written)"
    "c = stored (replicate (ABYTES aes256gcm + length m) 0) written"
  using assms
  by (auto simp: crypto_aead_aes256gcm_encrypt_afternm_def ARG_TO_UCHAR_BUFFER_def
      ARG_TO_UCHAR_BUFFER_LEN_def threw_def Let_def encrypt_afternm_transform_eq
      split: js_value.splits if_splits prod.splits)

lemma decrypt_afternm_Inr:
  assumes "outcome (crypto_aead_aes256gcm_decrypt_afternm P h c_arg ad_arg npub_arg ctx_arg) = Inr m"
  obtains c npub ctx written where
    "c_arg = Buffer c" "npub_arg = Buffer npub" "ctx_arg = Buffer ctx"
    "ABYTES aes256gcm \<le> length c" "length npub = NPUBBYTES aes256gcm"
    "length ctx = sodium_statebytes P"
    "sodium_decrypt_afternm P c (ARG_TO_UCHAR_BUFFER_OR_NULL ad_arg) npub ctx = (0, written)"
    "m = stored (NEW_BUFFER h 0 (length c - ABYTES aes256gcm)) written"
  using assms
  by (auto simp: crypto_aead_aes256gcm_decrypt_afternm_def ARG_TO_UCHAR_BUFFER_def
      ARG_TO_UCHAR_BUFFER_LEN_def threw_def Let_def
      split: js_value.splits if_splits prod.splits)

lemma encrypt_detached_afternm_Inr:
  assumes "outcome (crypto_aead_aes256gcm_encrypt_detached_afternm P h m_arg ad_arg npub_arg
                      ctx_arg) = Inr d"
  obtains m npub ctx written_c written_mac where
    "m_arg = Buffer m" "npub_arg = Buffer npub" "ctx_arg = Buffer ctx"
    "length npub = NPUBBYTES aes256gcm" "length ctx = sodium_statebytes P"
    "sodium_encrypt_detached_afternm P m (ARG_TO_UCHAR_BUFFER_OR_NULL ad_arg) npub ctx =
       (0, written_c, written_mac)"
    "cipherText d = stored (NEW_BUFFER h 0 (length m)) written_c"
    "mac d = stored (NEW_BUFFER h (length m) (ABYTES aes256gcm)) written_mac"
  using assms
  by (auto simp: crypto_aead_aes256gcm_encrypt_detached_afternm_def ARG_TO_UCHAR_BUFFER_def
      ARG_TO_UCHAR_BUFFER_LEN_def threw_def Let_def encrypt_detached_afternm_transform_def
      split: js_value.splits if_splits prod.splits)

lemma encrypt_Inr:
  assumes "outcome (crypto_aead_encrypt P h a m_arg ad_arg npub_arg key_arg) = Inr c"
  obtains m npub key written where
    "m_arg = Buffer m" "npub_arg = Buffer npub" "key_arg = Buffer key"
    "length npub = NPUBBYTES a" "length key = KEYBYTES a"
    "sodium_encrypt P a m (ARG_TO_UCHAR_BUFFER_OR_NULL ad_arg) npub key = (0, written)"
    "c = stored (replicate (ABYTES a + length m) 0) written"
  using assms
  by (auto simp: crypto_aead_encrypt_def ARG_TO_UCHAR_BUFFER_def
      ARG_TO_UCHAR_BUFFER_LEN_def threw_def Let_def zeroed_NEW_BUFFER
      split: js_value.splits if_splits prod.splits)

lemma decrypt_Inr:
  assumes "outcome (crypto_aead_decrypt P h a c_arg ad_arg npub_arg key_arg) = Inr m"
  obtains c npub key written where
    "c_arg = Buffer c" "npub_arg = Buffer npub" "key_arg = Buffer key"
    "ABYTES a \<le> length c" "length npub = NPUBBYTES a" "length key = KEYBYTES a"
    "sodium_decrypt P a c (ARG_TO_UCHAR_BUFFER_OR_NULL ad_arg) npub key = (0, written)"
    "m = stored (NEW_BUFFER h 0 (length c - ABYTES a)) written"
  using assms
  by (auto simp: crypto_aead_decrypt_def ARG_TO_UCHAR_BUFFER_def
      ARG_TO_UCHAR_BUFFER_LEN_def threw_def Let_def
      split: js_value.splits if_splits prod.splits)

lemma encrypt_detached_Inr:
  assumes "outcome (crypto_aead_encrypt_detached P h a m_arg ad_arg npub_arg key_arg) = Inr d"
  obtains m npub key written_c written_mac where
    "m_arg = Buffer m" "npub_arg = Buffer npub" "key_arg = Buffer key"
    "length npub = NPUBBYTES a" "length key = KEYBYTES a"
    "sodium_encrypt_detached P a m (ARG_TO_UCHAR_BUFFER_OR_NULL ad_arg) npub key =
       (0, written_c, written_mac)"
    "cipherText d = stored (NEW_BUFFER h 0 (length m)) written_c"
    "mac d = stored (NEW_BUFFER h (length m) (ABYTES a)) written_mac"
  using assms
  by (auto simp: crypto_aead_encrypt_detached_def ARG_TO_UCHAR_BUFFER_def
      ARG_TO_UCHAR_BUFFER_LEN_def threw_def Let_def
      split: js_value.splits if_splits prod.splits)

text \<open>The other direction: with arguments of the right lengths, the reply is decided by
  the primitive.\<close>

lemma decrypt_afternm_valid:
  assumes "ABYTES aes256gcm \<le> length c" "length npub = NPUBBYTES aes256gcm"
    "length ctx = sodium_statebytes P"
  shows "crypto_aead_aes256gcm_decrypt_afternm P h (Buffer c) ad_arg (Buffer npub) (Buffer ctx) =
     (case sodium_decrypt_afternm P c (ARG_TO_UCHAR_BUFFER_OR_NULL ad_arg) npub ctx of
        (rc, written) \<Rightarrow>
          if rc = 0
          then \<lparr>calls = [Call_decrypt_afternm],
                outcome = Inr (stored (NEW_BUFFER h 0 (length c - ABYTES aes256gcm)) written)\<rparr>
          else \<lparr>calls = [Call_decrypt_afternm], outcome = Inl AuthenticationFailed\<rparr>)"
  using assms
  by (simp add: crypto_aead_aes256gcm_decrypt_afternm_def ARG_TO_UCHAR_BUFFER_def
      ARG_TO_UCHAR_BUFFER_LEN_def Let_def split: prod.splits)

lemma decrypt_detached_afternm_valid:
  assumes "length t = ABYTES aes256gcm" "length npub = NPUBBYTES aes256gcm"
    "length ctx = sodium_statebytes P"
  shows "crypto_aead_aes256gcm_decrypt_detached_afternm P h (Buffer c) (Buffer t) ad_arg
           (Buffer npub) (Buffer ctx) =
     (case sodium_decrypt_detached_afternm P c t (ARG_TO_UCHAR_BUFFER_OR_NULL ad_arg) npub ctx of
        (rc, written) \<Rightarrow>
          if rc = 0
          then \<lparr>calls = [Call_decrypt_detached_afternm],
                outcome = Inr (stored (NEW_BUFFER h 0 (length c)) written)\<rparr>
          else \<lparr>calls = [Call_decrypt_detached_afternm], outcome = Inl AuthenticationFailed\<rparr>)"
  using assms
  by (simp add: crypto_aead_aes256gcm_decrypt_detached_afternm_def ARG_TO_UCHAR_BUFFER_def
      ARG_TO_UCHAR_BUFFER_LEN_def Let_def split: prod.splits)

lemma decrypt_valid:
  assumes "ABYTES a \<le> length c" "length npub = NPUBBYTES a" "length key = KEYBYTES a"
  shows "crypto_aead_decrypt P h a (Buffer c) ad_arg (Buffer npub) (Buffer key) =
     (case sodium_decrypt P a c (ARG_TO_UCHAR_BUFFER_OR_NULL ad_arg) npub key of
        (rc, written) \<Rightarrow>
          if rc = 0
          then \<lparr>calls = [Call_decrypt a],
                outcome = Inr (stored (NEW_BUFFER h 0 (length c - ABYTES a)) written)\<rparr>
          else \<lparr>calls = [Call_decrypt a], outcome = Inl AuthenticationFailed\<rparr>)"
  using assms
  by (simp add: crypto_aead_decrypt_def ARG_TO_UCHAR_BUFFER_def
      ARG_TO_UCHAR_BUFFER_LEN_def Let_def split: prod.splits)

lemma decrypt_detached_valid:
  assumes "length t = ABYTES a" "length npub = NPUBBYTES a" "length key = KEYBYTES a"
  shows "crypto_aead_decrypt_detached P h a (Buffer c) (Buffer t) ad_arg (Buffer npub)
           (Buffer key) =
     (case sodium_decrypt_detached P a c t (ARG_TO_UCHAR_BUFFER_OR_NULL ad_arg) npub key of
        (rc, written) \<Rightarrow>
          if rc = 0
          then \<lparr>calls = [Call_decrypt_detached a],
                outcome = Inr (stored (NEW_BUFFER h 0 (length c)) written)\<rparr>
          else \<lparr>calls = [Call_decrypt_detached a], outcome = Inl AuthenticationFailed\<rparr>)"
  using assms
  by (simp add: crypto_aead_decrypt_detached_def ARG_TO_UCHAR_BUFFER_def
      ARG_TO_UCHAR_BUFFER_LEN_def Let_def split: prod.splits)

lemma encrypt_afternm_valid:
  assumes "length npub = NPUBBYTES aes256gcm" "length ctx = sodium_statebytes P"
  shows "crypto_aead_aes256gcm_encrypt_afternm P h (Buffer m) ad_arg (Buffer npub) (Buffer ctx) =
     (case sodium_encrypt_afternm P m (ARG_TO_UCHAR_BUFFER_OR_NULL ad_arg) npub ctx of
        (rc, written) \<Rightarrow>
          if rc = 0
          then \<lparr>calls = [Call_encrypt_afternm],
                outcome = Inr (stored (replicate (ABYTES aes256gcm + length m) 0) written)\<rparr>
          else \<lparr>calls = [Call_encrypt_afternm], outcome = Inl EncryptionFailed\<rparr>)"
  using assms
  by (simp add: crypto_aead_aes256gcm_encrypt_afternm_def ARG_TO_UCHAR_BUFFER_def
      ARG_TO_UCHAR_BUFFER_LEN_def Let_def encrypt_afternm_transform_eq split: prod.splits)

lemma encrypt_detached_afternm_valid:
  assumes "length npub = NPUBBYTES aes256gcm" "length ctx = sodium_statebytes P"
  shows "crypto_aead_aes256gcm_encrypt_detached_afternm P h (Buffer m) ad_arg (Buffer npub)
           (Buffer ctx) =
     (case sodium_encrypt_detached_afternm P m (ARG_TO_UCHAR_BUFFER_OR_NULL ad_arg) npub ctx of
        (rc, written_c, written_mac) \<Rightarrow>
          if rc = 0
          then \<lparr>calls = [Call_encrypt_detached_afternm],
                outcome = Inr \<lparr>cipherText = stored (NEW_BUFFER h 0 (length m)) written_c,
                               mac = stored (NEW_BUFFER h (length m) (ABYTES aes256gcm))
                                       written_mac\<rparr>\<rparr>
          else \<lparr>calls = [Call_encrypt_detached_afternm], outcome = Inl EncryptionFailed\<rparr>)"
  using assms
  by (simp add: crypto_aead_aes256gcm_encrypt_detached_afternm_def ARG_TO_UCHAR_BUFFER_def
      ARG_TO_UCHAR_BUFFER_LEN_def Let_def encrypt_detached_afternm_transform_def
      split: prod.splits)

lemma encrypt_valid:
  assumes "length npub = NPUBBYTES a" "length key = KEYBYTES a"
  shows "crypto_aead_encrypt P h a (Buffer m) ad_arg (Buffer npub) (Buffer key) =
     (case sodium_encrypt P a m (ARG_TO_UCHAR_BUFFER_OR_NULL ad_arg) npub key of
        (rc, written) \<Rightarrow>
          if rc = 0
          then \<lparr>calls = [Call_encrypt a],
                outcome = Inr (stored (replicate (ABYTES a + length m) 0) written)\<rparr>
          else \<lparr>calls = [Call_encrypt a], outcome = Inl EncryptionFailed\<rparr>)"
  using assms
  by (simp add: crypto_aead_encrypt_def ARG_TO_UCHAR_BUFFER_def
      ARG_TO_UCHAR_BUFFER_LEN_def Let_def zeroed_NEW_BUFFER split: prod.splits)

lemma encrypt_detached_valid:
  assumes "length npub = NPUBBYTES a" "length key = KEYBYTES a"
  shows "crypto_aead_encrypt_detached P h a (Buffer m) ad_arg (Buffer npub) (Buffer key) =
     (case sodium_encrypt_detached P a m (ARG_TO_UCHAR_BUFFER_OR_NULL ad_arg) npub key of
        (rc, written_c, written_mac) \<Rightarrow>
          if rc = 0
          then \<lparr>calls = [Call_encrypt_detached a],
                outcome = Inr \<lparr>cipherText = stored (NEW_BUFFER h 0 (length m)) written_c,
                               mac = stored (NEW_BUFFER h (length m) (ABYTES a)) written_mac\<rparr>\<rparr>
          else \<lparr>calls = [Call_encrypt_detached a], outcome = Inl EncryptionFailed\<rparr>)"
  using assms
  by (simp add: crypto_aead_encrypt_detached_def ARG_TO_UCHAR_BUFFER_def
      ARG_TO_UCHAR_BUFFER_LEN_def Let_def split: prod.splits)

subsection \<open>The test double keeps libsodium's promises\<close>

lemma xor_text_involution: "xor_text key npub (xor_text key npub m) = m"
  by (induction m) (simp_all add: xor_text_def xor.assoc)

lemma length_xor_text: "length (xor_text key npub m) = length m"
  by (simp add: xor_text_def)

lemma length_xor_tag: "length (xor_tag key npub c ad) = 16"
  by (simp add: xor_tag_def)

lemma xor_sodium_roundtrip: "sodium_roundtrip xor_sodium"
  unfolding sodium_roundtrip_def
  by (auto simp: xor_sodium_def xor_encrypt_def xor_decrypt_def xor_encrypt_detached_def
      xor_decrypt_detached_def xor_text_involution length_xor_text length_xor_tag)

lemma xor_sodium_layout: "sodium_layout xor_sodium"
  unfolding sodium_layout_def
  by (auto simp: xor_sodium_def xor_encrypt_def xor_encrypt_detached_def
      length_xor_text length_xor_tag)

lemma xor_sodium_precompute: "sodium_precompute xor_sodium"
  unfolding sodium_precompute_def
  by (simp add: xor_sodium_def)

section \<open>The claims\<close>

subsection \<open>C4: a cipher text shorter than one tag\<close>

text \<open>
  C4. A cipher text of fewer than \<open>ABYTES\<close> bytes makes combined decrypt fail with
  \<open>InvalidLength\<close>, and no transform of the primitive is called: the reply is the same
  for every primitive, every heap and every other argument, and its list of calls is
  empty. First conjunct: the context method of the file; second: the key method of each
  algorithm.
\<close>

theorem short_ciphertext_rejected:
  "(length c < ABYTES aes256gcm \<longrightarrow>
      crypto_aead_aes256gcm_decrypt_afternm P h (Buffer c) ad_arg npub_arg ctx_arg =
        \<lparr>calls = [], outcome = Inl InvalidLength\<rparr>) \<and>
   (length c' < ABYTES a \<longrightarrow>
      crypto_aead_decrypt P h a (Buffer c') ad_arg' npub_arg' key_arg =
        \<lparr>calls = [], outcome = Inl InvalidLength\<rparr>)"
  by (simp add: crypto_aead_aes256gcm_decrypt_afternm_def crypto_aead_decrypt_def conv_defs)

theorem short_ciphertext_rejected_witness:
  "length (replicate 15 (1 :: byte)) < ABYTES aes256gcm \<and>
   crypto_aead_aes256gcm_decrypt_afternm xor_sodium demo_heap (Buffer (replicate 15 1)) Null
       (Buffer demo_npub) (Buffer demo_ctx) =
     \<lparr>calls = [], outcome = Inl InvalidLength\<rparr> \<and>
   length ([] :: bytes) < ABYTES chacha20poly1305 \<and>
   crypto_aead_decrypt xor_sodium demo_heap chacha20poly1305 (Buffer []) Null
       (Buffer (replicate 8 7)) (Buffer demo_key) =
     \<lparr>calls = [], outcome = Inl InvalidLength\<rparr>"
proof -
  have short: "length (replicate 15 (1 :: byte)) < ABYTES aes256gcm"
    "length ([] :: bytes) < ABYTES chacha20poly1305"
    by simp_all
  from short short_ciphertext_rejected [where c = "replicate 15 1" and c' = "[]"
      and a = chacha20poly1305]
  show ?thesis by blast
qed

subsection \<open>C7: the length of the plaintext\<close>

text \<open>
  C7. When combined decrypt returns a plaintext, the cipher text had at least
  \<open>ABYTES\<close> bytes and the plaintext has exactly \<open>length c - ABYTES\<close> bytes, whatever
  the primitive stored. First conjunct: the context method of the file; second: the key
  method of each algorithm.
\<close>

theorem plaintext_length:
  "(outcome (crypto_aead_aes256gcm_decrypt_afternm P h (Buffer c) ad_arg npub_arg ctx_arg) = Inr m
      \<longrightarrow> ABYTES aes256gcm \<le> length c \<and> length m = length c - ABYTES aes256gcm) \<and>
   (outcome (crypto_aead_decrypt P h a (Buffer c') ad_arg' npub_arg' key_arg) = Inr m'
      \<longrightarrow> ABYTES a \<le> length c' \<and> length m' = length c' - ABYTES a)"
proof (intro conjI impI)
  assume "outcome (crypto_aead_aes256gcm_decrypt_afternm P h (Buffer c) ad_arg npub_arg ctx_arg)
            = Inr m"
  then show "ABYTES aes256gcm \<le> length c" "length m = length c - ABYTES aes256gcm"
    by (auto elim!: decrypt_afternm_Inr simp: length_stored length_NEW_BUFFER)
next
  assume "outcome (crypto_aead_decrypt P h a (Buffer c') ad_arg' npub_arg' key_arg) = Inr m'"
  then show "ABYTES a \<le> length c'" "length m' = length c' - ABYTES a"
    by (auto elim!: decrypt_Inr simp: length_stored length_NEW_BUFFER)
qed

theorem plaintext_length_witness:
  "outcome (crypto_aead_aes256gcm_decrypt_afternm xor_sodium demo_heap
      (Buffer ([117, 118, 119] @ replicate 16 214)) Null (Buffer demo_npub) (Buffer demo_ctx))
     = Inr [1, 2, 3] \<and>
   length [1, 2, 3 :: byte] =
     length ([117, 118, 119] @ replicate 16 (214 :: byte)) - ABYTES aes256gcm \<and>
   outcome (crypto_aead_decrypt xor_sodium demo_heap chacha20poly1305
      (Buffer ([89, 90, 91] @ replicate 16 102)) Null (Buffer (replicate 8 7)) (Buffer demo_key))
     = Inr [1, 2, 3] \<and>
   length [1, 2, 3 :: byte] =
     length ([89, 90, 91] @ replicate 16 (102 :: byte)) - ABYTES chacha20poly1305"
proof -
  have returned:
    "outcome (crypto_aead_aes256gcm_decrypt_afternm xor_sodium demo_heap
       (Buffer ([117, 118, 119] @ replicate 16 214)) Null (Buffer demo_npub) (Buffer demo_ctx))
      = Inr [1, 2, 3]"
    "outcome (crypto_aead_decrypt xor_sodium demo_heap chacha20poly1305
       (Buffer ([89, 90, 91] @ replicate 16 102)) Null (Buffer (replicate 8 7)) (Buffer demo_key))
      = Inr [1, 2, 3]"
    by code_simp+
  from returned plaintext_length [where P = xor_sodium and h = demo_heap
      and c = "[117, 118, 119] @ replicate 16 214" and m = "[1, 2, 3]"
      and c' = "[89, 90, 91] @ replicate 16 102" and m' = "[1, 2, 3]"
      and a = chacha20poly1305]
  show ?thesis by blast
qed

subsection \<open>C1: a failed verification returns nothing\<close>

text \<open>
  C1. When the arguments of combined decrypt have valid lengths and the primitive's
  verification fails (it returns a code other than 0), the method returns
  \<open>AuthenticationFailed\<close>: a value that carries no byte of the plaintext buffer,
  whatever the primitive stored in it. First conjunct: the context method of the file;
  second: the key method of each algorithm.
\<close>

theorem auth_failure_returns_no_plaintext:
  "(fst (sodium_decrypt_afternm P c (ARG_TO_UCHAR_BUFFER_OR_NULL ad_arg) npub ctx) \<noteq> 0 \<and>
    ABYTES aes256gcm \<le> length c \<and> length npub = NPUBBYTES aes256gcm \<and>
    length ctx = sodium_statebytes P \<longrightarrow>
      crypto_aead_aes256gcm_decrypt_afternm P h (Buffer c) ad_arg (Buffer npub) (Buffer ctx) =
        \<lparr>calls = [Call_decrypt_afternm], outcome = Inl AuthenticationFailed\<rparr>) \<and>
   (fst (sodium_decrypt P a c' (ARG_TO_UCHAR_BUFFER_OR_NULL ad_arg') npub' key) \<noteq> 0 \<and>
    ABYTES a \<le> length c' \<and> length npub' = NPUBBYTES a \<and> length key = KEYBYTES a \<longrightarrow>
      crypto_aead_decrypt P h a (Buffer c') ad_arg' (Buffer npub') (Buffer key) =
        \<lparr>calls = [Call_decrypt a], outcome = Inl AuthenticationFailed\<rparr>)"
proof (intro conjI impI)
  assume "fst (sodium_decrypt_afternm P c (ARG_TO_UCHAR_BUFFER_OR_NULL ad_arg) npub ctx) \<noteq> 0 \<and>
    ABYTES aes256gcm \<le> length c \<and> length npub = NPUBBYTES aes256gcm \<and>
    length ctx = sodium_statebytes P"
  then show "crypto_aead_aes256gcm_decrypt_afternm P h (Buffer c) ad_arg (Buffer npub) (Buffer ctx)
      = \<lparr>calls = [Call_decrypt_afternm], outcome = Inl AuthenticationFailed\<rparr>"
    by (auto simp: decrypt_afternm_valid split: prod.splits)
next
  assume "fst (sodium_decrypt P a c' (ARG_TO_UCHAR_BUFFER_OR_NULL ad_arg') npub' key) \<noteq> 0 \<and>
    ABYTES a \<le> length c' \<and> length npub' = NPUBBYTES a \<and> length key = KEYBYTES a"
  then show "crypto_aead_decrypt P h a (Buffer c') ad_arg' (Buffer npub') (Buffer key) =
      \<lparr>calls = [Call_decrypt a], outcome = Inl AuthenticationFailed\<rparr>"
    by (auto simp: decrypt_valid split: prod.splits)
qed

theorem auth_failure_returns_no_plaintext_witness:
  "fst (sodium_decrypt_afternm xor_sodium ([117, 118, 119] @ replicate 16 0)
          (ARG_TO_UCHAR_BUFFER_OR_NULL Null) demo_npub demo_ctx) \<noteq> 0 \<and>
   crypto_aead_aes256gcm_decrypt_afternm xor_sodium demo_heap
       (Buffer ([117, 118, 119] @ replicate 16 0)) Null (Buffer demo_npub) (Buffer demo_ctx) =
     \<lparr>calls = [Call_decrypt_afternm], outcome = Inl AuthenticationFailed\<rparr> \<and>
   fst (sodium_decrypt xor_sodium xchacha20poly1305_ietf (replicate 16 0)
          (ARG_TO_UCHAR_BUFFER_OR_NULL (Buffer [5])) (replicate 24 7) demo_key) \<noteq> 0 \<and>
   crypto_aead_decrypt xor_sodium demo_heap xchacha20poly1305_ietf
       (Buffer (replicate 16 0)) (Buffer [5]) (Buffer (replicate 24 7)) (Buffer demo_key) =
     \<lparr>calls = [Call_decrypt xchacha20poly1305_ietf], outcome = Inl AuthenticationFailed\<rparr>"
proof -
  have fails:
    "fst (sodium_decrypt_afternm xor_sodium ([117, 118, 119] @ replicate 16 0)
            (ARG_TO_UCHAR_BUFFER_OR_NULL Null) demo_npub demo_ctx) \<noteq> 0"
    "fst (sodium_decrypt xor_sodium xchacha20poly1305_ietf (replicate 16 0)
            (ARG_TO_UCHAR_BUFFER_OR_NULL (Buffer [5])) (replicate 24 7) demo_key) \<noteq> 0"
    by code_simp+
  have lengths:
    "ABYTES aes256gcm \<le> length ([117, 118, 119] @ replicate 16 (0 :: byte))"
    "length demo_npub = NPUBBYTES aes256gcm" "length demo_ctx = sodium_statebytes xor_sodium"
    "ABYTES xchacha20poly1305_ietf \<le> length (replicate 16 (0 :: byte))"
    "length (replicate 24 (7 :: byte)) = NPUBBYTES xchacha20poly1305_ietf"
    "length demo_key = KEYBYTES xchacha20poly1305_ietf"
    by (simp_all add: demo_npub_def demo_ctx_def demo_key_def xor_sodium_def)
  from fails lengths auth_failure_returns_no_plaintext [where P = xor_sodium and h = demo_heap
      and c = "[117, 118, 119] @ replicate 16 0" and ad_arg = Null and npub = demo_npub
      and ctx = demo_ctx and a = xchacha20poly1305_ietf and c' = "replicate 16 0"
      and ad_arg' = "Buffer [5]" and npub' = "replicate 24 7" and key = demo_key]
  show ?thesis by blast
qed

subsection \<open>C2: decrypt inverts encrypt\<close>

lemma sodium_roundtrip_afternmD:
  assumes "sodium_roundtrip P" "length npub = NPUBBYTES aes256gcm"
    "length ctx = sodium_statebytes P" "sodium_encrypt_afternm P m ad npub ctx = (0, c)"
  shows "length c = ABYTES aes256gcm + length m \<and>
         sodium_decrypt_afternm P c ad npub ctx = (0, m)"
  using assms unfolding sodium_roundtrip_def by fast

lemma sodium_roundtrip_detached_afternmD:
  assumes "sodium_roundtrip P" "length npub = NPUBBYTES aes256gcm"
    "length ctx = sodium_statebytes P"
    "sodium_encrypt_detached_afternm P m ad npub ctx = (0, c, t)"
  shows "length c = length m \<and> length t = ABYTES aes256gcm \<and>
         sodium_decrypt_detached_afternm P c t ad npub ctx = (0, m)"
  using assms unfolding sodium_roundtrip_def by fast

lemma sodium_roundtrip_keyD:
  assumes "sodium_roundtrip P" "length npub = NPUBBYTES a" "length key = KEYBYTES a"
    "sodium_encrypt P a m ad npub key = (0, c)"
  shows "length c = ABYTES a + length m \<and> sodium_decrypt P a c ad npub key = (0, m)"
  using assms unfolding sodium_roundtrip_def by fast

lemma sodium_roundtrip_detached_keyD:
  assumes "sodium_roundtrip P" "length npub = NPUBBYTES a" "length key = KEYBYTES a"
    "sodium_encrypt_detached P a m ad npub key = (0, c, t)"
  shows "length c = length m \<and> length t = ABYTES a \<and>
         sodium_decrypt_detached P a c t ad npub key = (0, m)"
  using assms unfolding sodium_roundtrip_def by fast

lemma roundtrip_afternm:
  assumes rt: "sodium_roundtrip P"
    and enc: "outcome (crypto_aead_aes256gcm_encrypt_afternm P h (Buffer m) ad_arg npub_arg
                         ctx_arg) = Inr c"
  shows "crypto_aead_aes256gcm_decrypt_afternm P h' (Buffer c) ad_arg npub_arg ctx_arg =
           \<lparr>calls = [Call_decrypt_afternm], outcome = Inr m\<rparr>"
proof -
  from enc obtain npub ctx written where
    args: "npub_arg = Buffer npub" "ctx_arg = Buffer ctx"
    and len: "length npub = NPUBBYTES aes256gcm" "length ctx = sodium_statebytes P"
    and prim: "sodium_encrypt_afternm P m (ARG_TO_UCHAR_BUFFER_OR_NULL ad_arg) npub ctx
                 = (0, written)"
    and c: "c = stored (replicate (ABYTES aes256gcm + length m) 0) written"
    by (auto elim!: encrypt_afternm_Inr)
  from sodium_roundtrip_afternmD [OF rt len prim]
  have w: "length written = ABYTES aes256gcm + length m"
    and dec: "sodium_decrypt_afternm P written (ARG_TO_UCHAR_BUFFER_OR_NULL ad_arg) npub ctx
                = (0, m)"
    by simp_all
  from w c have cw: "c = written"
    by (simp add: stored_full)
  from w cw have "ABYTES aes256gcm \<le> length c" "length m = length c - ABYTES aes256gcm"
    by simp_all
  with args len dec cw show ?thesis
    by (simp add: decrypt_afternm_valid stored_full length_NEW_BUFFER)
qed

lemma roundtrip_detached_afternm:
  assumes rt: "sodium_roundtrip P"
    and enc: "outcome (crypto_aead_aes256gcm_encrypt_detached_afternm P h (Buffer m) ad_arg
                         npub_arg ctx_arg) = Inr d"
  shows "crypto_aead_aes256gcm_decrypt_detached_afternm P h' (Buffer (cipherText d))
           (Buffer (mac d)) ad_arg npub_arg ctx_arg =
           \<lparr>calls = [Call_decrypt_detached_afternm], outcome = Inr m\<rparr>"
proof -
  from enc obtain npub ctx written_c written_mac where
    args: "npub_arg = Buffer npub" "ctx_arg = Buffer ctx"
    and len: "length npub = NPUBBYTES aes256gcm" "length ctx = sodium_statebytes P"
    and prim: "sodium_encrypt_detached_afternm P m (ARG_TO_UCHAR_BUFFER_OR_NULL ad_arg) npub ctx
                 = (0, written_c, written_mac)"
    and d: "cipherText d = stored (NEW_BUFFER h 0 (length m)) written_c"
      "mac d = stored (NEW_BUFFER h (length m) (ABYTES aes256gcm)) written_mac"
    by (auto elim!: encrypt_detached_afternm_Inr)
  from sodium_roundtrip_detached_afternmD [OF rt len prim]
  have w: "length written_c = length m" "length written_mac = ABYTES aes256gcm"
    and dec: "sodium_decrypt_detached_afternm P written_c written_mac
                (ARG_TO_UCHAR_BUFFER_OR_NULL ad_arg) npub ctx = (0, m)"
    by simp_all
  from w d have dw: "cipherText d = written_c" "mac d = written_mac"
    by (simp_all add: stored_full length_NEW_BUFFER)
  with args len dec w show ?thesis
    by (simp add: decrypt_detached_afternm_valid stored_full length_NEW_BUFFER)
qed

lemma roundtrip_key:
  assumes rt: "sodium_roundtrip P"
    and enc: "outcome (crypto_aead_encrypt P h a (Buffer m) ad_arg npub_arg key_arg) = Inr c"
  shows "crypto_aead_decrypt P h' a (Buffer c) ad_arg npub_arg key_arg =
           \<lparr>calls = [Call_decrypt a], outcome = Inr m\<rparr>"
proof -
  from enc obtain npub key written where
    args: "npub_arg = Buffer npub" "key_arg = Buffer key"
    and len: "length npub = NPUBBYTES a" "length key = KEYBYTES a"
    and prim: "sodium_encrypt P a m (ARG_TO_UCHAR_BUFFER_OR_NULL ad_arg) npub key = (0, written)"
    and c: "c = stored (replicate (ABYTES a + length m) 0) written"
    by (auto elim!: encrypt_Inr)
  from sodium_roundtrip_keyD [OF rt len prim]
  have w: "length written = ABYTES a + length m"
    and dec: "sodium_decrypt P a written (ARG_TO_UCHAR_BUFFER_OR_NULL ad_arg) npub key = (0, m)"
    by simp_all
  from w c have cw: "c = written"
    by (simp add: stored_full)
  from w cw have "ABYTES a \<le> length c" "length m = length c - ABYTES a"
    by simp_all
  with args len dec cw show ?thesis
    by (simp add: decrypt_valid stored_full length_NEW_BUFFER)
qed

lemma roundtrip_detached_key:
  assumes rt: "sodium_roundtrip P"
    and enc: "outcome (crypto_aead_encrypt_detached P h a (Buffer m) ad_arg npub_arg key_arg)
                = Inr d"
  shows "crypto_aead_decrypt_detached P h' a (Buffer (cipherText d)) (Buffer (mac d)) ad_arg
           npub_arg key_arg =
           \<lparr>calls = [Call_decrypt_detached a], outcome = Inr m\<rparr>"
proof -
  from enc obtain npub key written_c written_mac where
    args: "npub_arg = Buffer npub" "key_arg = Buffer key"
    and len: "length npub = NPUBBYTES a" "length key = KEYBYTES a"
    and prim: "sodium_encrypt_detached P a m (ARG_TO_UCHAR_BUFFER_OR_NULL ad_arg) npub key
                 = (0, written_c, written_mac)"
    and d: "cipherText d = stored (NEW_BUFFER h 0 (length m)) written_c"
      "mac d = stored (NEW_BUFFER h (length m) (ABYTES a)) written_mac"
    by (auto elim!: encrypt_detached_Inr)
  from sodium_roundtrip_detached_keyD [OF rt len prim]
  have w: "length written_c = length m" "length written_mac = ABYTES a"
    and dec: "sodium_decrypt_detached P a written_c written_mac
                (ARG_TO_UCHAR_BUFFER_OR_NULL ad_arg) npub key = (0, m)"
    by simp_all
  from w d have dw: "cipherText d = written_c" "mac d = written_mac"
    by (simp_all add: stored_full length_NEW_BUFFER)
  with args len dec w show ?thesis
    by (simp add: decrypt_detached_valid stored_full length_NEW_BUFFER)
qed

text \<open>
  C2. Let the primitive keep \<open>sodium_roundtrip\<close>. Whenever an encrypt method returns
  an output for a message \<open>m\<close> (of any length, the empty one included) and associated
  data \<open>ad\<close> (a Buffer of any length, or \<^verbatim>\<open>null\<close>), the matching decrypt method, given
  that output and the same associated data, nonce and key or context, returns exactly
  \<open>m\<close>. The four conjuncts are the four modes: combined and detached with a context
  (the methods of the file), combined and detached with a key (each algorithm).
\<close>

theorem decrypt_inverts_encrypt:
  assumes "sodium_roundtrip P"
  shows
  "(outcome (crypto_aead_aes256gcm_encrypt_afternm P h1 (Buffer m1) ad1 npub1 ctx1) = Inr c1
      \<longrightarrow> outcome (crypto_aead_aes256gcm_decrypt_afternm P h1' (Buffer c1) ad1 npub1 ctx1)
            = Inr m1) \<and>
   (outcome (crypto_aead_aes256gcm_encrypt_detached_afternm P h2 (Buffer m2) ad2 npub2 ctx2)
      = Inr d2
      \<longrightarrow> outcome (crypto_aead_aes256gcm_decrypt_detached_afternm P h2' (Buffer (cipherText d2))
                     (Buffer (mac d2)) ad2 npub2 ctx2) = Inr m2) \<and>
   (outcome (crypto_aead_encrypt P h3 a3 (Buffer m3) ad3 npub3 key3) = Inr c3
      \<longrightarrow> outcome (crypto_aead_decrypt P h3' a3 (Buffer c3) ad3 npub3 key3) = Inr m3) \<and>
   (outcome (crypto_aead_encrypt_detached P h4 a4 (Buffer m4) ad4 npub4 key4) = Inr d4
      \<longrightarrow> outcome (crypto_aead_decrypt_detached P h4' a4 (Buffer (cipherText d4))
                     (Buffer (mac d4)) ad4 npub4 key4) = Inr m4)"
  using assms
  by (simp add: roundtrip_afternm roundtrip_detached_afternm roundtrip_key
      roundtrip_detached_key)

theorem decrypt_inverts_encrypt_witness:
  "sodium_roundtrip xor_sodium \<and>
   outcome (crypto_aead_aes256gcm_encrypt_afternm xor_sodium demo_heap (Buffer []) Null
      (Buffer demo_npub) (Buffer demo_ctx)) = Inr (replicate 16 116) \<and>
   outcome (crypto_aead_aes256gcm_decrypt_afternm xor_sodium demo_heap
      (Buffer (replicate 16 116)) Null (Buffer demo_npub) (Buffer demo_ctx)) = Inr [] \<and>
   outcome (crypto_aead_aes256gcm_encrypt_detached_afternm xor_sodium demo_heap
      (Buffer [1, 2, 3]) (Buffer [5]) (Buffer demo_npub) (Buffer demo_ctx))
     = Inr \<lparr>cipherText = [117, 118, 119], mac = replicate 16 219\<rparr> \<and>
   outcome (crypto_aead_aes256gcm_decrypt_detached_afternm xor_sodium demo_heap
      (Buffer [117, 118, 119]) (Buffer (replicate 16 219)) (Buffer [5]) (Buffer demo_npub)
      (Buffer demo_ctx)) = Inr [1, 2, 3] \<and>
   outcome (crypto_aead_encrypt xor_sodium demo_heap chacha20poly1305 (Buffer [1, 2, 3])
      (Buffer []) (Buffer (replicate 8 7)) (Buffer demo_key))
     = Inr ([89, 90, 91] @ replicate 16 102) \<and>
   outcome (crypto_aead_decrypt xor_sodium demo_heap chacha20poly1305
      (Buffer ([89, 90, 91] @ replicate 16 102)) (Buffer []) (Buffer (replicate 8 7))
      (Buffer demo_key)) = Inr [1, 2, 3] \<and>
   outcome (crypto_aead_encrypt_detached xor_sodium demo_heap xchacha20poly1305_ietf (Buffer [])
      (Buffer []) (Buffer (replicate 24 7)) (Buffer demo_key))
     = Inr \<lparr>cipherText = [], mac = replicate 16 200\<rparr> \<and>
   outcome (crypto_aead_decrypt_detached xor_sodium demo_heap xchacha20poly1305_ietf
      (Buffer []) (Buffer (replicate 16 200)) (Buffer []) (Buffer (replicate 24 7))
      (Buffer demo_key)) = Inr []"
proof -
  have encrypted:
    "outcome (crypto_aead_aes256gcm_encrypt_afternm xor_sodium demo_heap (Buffer []) Null
       (Buffer demo_npub) (Buffer demo_ctx)) = Inr (replicate 16 116)"
    "outcome (crypto_aead_aes256gcm_encrypt_detached_afternm xor_sodium demo_heap
       (Buffer [1, 2, 3]) (Buffer [5]) (Buffer demo_npub) (Buffer demo_ctx))
      = Inr \<lparr>cipherText = [117, 118, 119], mac = replicate 16 219\<rparr>"
    "outcome (crypto_aead_encrypt xor_sodium demo_heap chacha20poly1305 (Buffer [1, 2, 3])
       (Buffer []) (Buffer (replicate 8 7)) (Buffer demo_key))
      = Inr ([89, 90, 91] @ replicate 16 102)"
    "outcome (crypto_aead_encrypt_detached xor_sodium demo_heap xchacha20poly1305_ietf
       (Buffer []) (Buffer []) (Buffer (replicate 24 7)) (Buffer demo_key))
      = Inr \<lparr>cipherText = [], mac = replicate 16 200\<rparr>"
    by code_simp+
  note decrypted = decrypt_inverts_encrypt [OF xor_sodium_roundtrip,
      where ?h1.0 = demo_heap and ?h1' = demo_heap and ?m1.0 = "[]" and ?ad1.0 = Null
        and ?npub1.0 = "Buffer demo_npub" and ?ctx1.0 = "Buffer demo_ctx"
        and ?c1.0 = "replicate 16 116"
        and ?h2.0 = demo_heap and ?h2' = demo_heap and ?m2.0 = "[1, 2, 3]"
        and ?ad2.0 = "Buffer [5]" and ?npub2.0 = "Buffer demo_npub"
        and ?ctx2.0 = "Buffer demo_ctx"
        and ?d2.0 = "\<lparr>cipherText = [117, 118, 119], mac = replicate 16 219\<rparr>"
        and ?h3.0 = demo_heap and ?h3' = demo_heap and ?a3.0 = chacha20poly1305
        and ?m3.0 = "[1, 2, 3]" and ?ad3.0 = "Buffer []" and ?npub3.0 = "Buffer (replicate 8 7)"
        and ?key3.0 = "Buffer demo_key" and ?c3.0 = "[89, 90, 91] @ replicate 16 102"
        and ?h4.0 = demo_heap and ?h4' = demo_heap and ?a4.0 = xchacha20poly1305_ietf
        and ?m4.0 = "[]" and ?ad4.0 = "Buffer []" and ?npub4.0 = "Buffer (replicate 24 7)"
        and ?key4.0 = "Buffer demo_key"
        and ?d4.0 = "\<lparr>cipherText = [], mac = replicate 16 200\<rparr>"]
  from encrypted decrypted xor_sodium_roundtrip show ?thesis
    by simp
qed

subsection \<open>C6: the combined output is cipher text, then tag\<close>

lemma sodium_layout_afternmD:
  assumes "sodium_layout P" "length npub = NPUBBYTES aes256gcm"
    "length ctx = sodium_statebytes P"
    "sodium_encrypt_detached_afternm P m ad npub ctx = (rc, c, t)"
  shows "length c = length m \<and> length t = ABYTES aes256gcm \<and>
         sodium_encrypt_afternm P m ad npub ctx = (rc, c @ t)"
  using assms unfolding sodium_layout_def by fast

lemma sodium_layout_keyD:
  assumes "sodium_layout P" "length npub = NPUBBYTES a" "length key = KEYBYTES a"
    "sodium_encrypt_detached P a m ad npub key = (rc, c, t)"
  shows "length c = length m \<and> length t = ABYTES a \<and>
         sodium_encrypt P a m ad npub key = (rc, c @ t)"
  using assms unfolding sodium_layout_def by fast

lemma combined_is_detached_afternm:
  assumes lay: "sodium_layout P"
    and enc: "outcome (crypto_aead_aes256gcm_encrypt_afternm P h (Buffer m) ad_arg npub_arg
                         ctx_arg) = Inr c"
  shows "\<exists>d. outcome (crypto_aead_aes256gcm_encrypt_detached_afternm P h' (Buffer m) ad_arg
                        npub_arg ctx_arg) = Inr d \<and>
             length (cipherText d) = length m \<and> length (mac d) = ABYTES aes256gcm \<and>
             c = cipherText d @ mac d"
proof -
  from enc obtain npub ctx written where
    args: "npub_arg = Buffer npub" "ctx_arg = Buffer ctx"
    and len: "length npub = NPUBBYTES aes256gcm" "length ctx = sodium_statebytes P"
    and prim: "sodium_encrypt_afternm P m (ARG_TO_UCHAR_BUFFER_OR_NULL ad_arg) npub ctx
                 = (0, written)"
    and c: "c = stored (replicate (ABYTES aes256gcm + length m) 0) written"
    by (auto elim!: encrypt_afternm_Inr)
  obtain rc wc wt where
    det: "sodium_encrypt_detached_afternm P m (ARG_TO_UCHAR_BUFFER_OR_NULL ad_arg) npub ctx
            = (rc, wc, wt)"
    by (cases "sodium_encrypt_detached_afternm P m (ARG_TO_UCHAR_BUFFER_OR_NULL ad_arg) npub ctx")
  from sodium_layout_afternmD [OF lay len det] prim
  have w: "length wc = length m" "length wt = ABYTES aes256gcm"
    and rc: "rc = 0" and written: "written = wc @ wt"
    by simp_all
  from c w written have "c = wc @ wt"
    by (simp add: stored_full)
  with args len det w rc show ?thesis
    by (simp add: encrypt_detached_afternm_valid stored_full length_NEW_BUFFER)
qed

lemma combined_is_detached_key:
  assumes lay: "sodium_layout P"
    and enc: "outcome (crypto_aead_encrypt P h a (Buffer m) ad_arg npub_arg key_arg) = Inr c"
  shows "\<exists>d. outcome (crypto_aead_encrypt_detached P h' a (Buffer m) ad_arg npub_arg key_arg)
               = Inr d \<and>
             length (cipherText d) = length m \<and> length (mac d) = ABYTES a \<and>
             c = cipherText d @ mac d"
proof -
  from enc obtain npub key written where
    args: "npub_arg = Buffer npub" "key_arg = Buffer key"
    and len: "length npub = NPUBBYTES a" "length key = KEYBYTES a"
    and prim: "sodium_encrypt P a m (ARG_TO_UCHAR_BUFFER_OR_NULL ad_arg) npub key = (0, written)"
    and c: "c = stored (replicate (ABYTES a + length m) 0) written"
    by (auto elim!: encrypt_Inr)
  obtain rc wc wt where
    det: "sodium_encrypt_detached P a m (ARG_TO_UCHAR_BUFFER_OR_NULL ad_arg) npub key
            = (rc, wc, wt)"
    by (cases "sodium_encrypt_detached P a m (ARG_TO_UCHAR_BUFFER_OR_NULL ad_arg) npub key")
  from sodium_layout_keyD [OF lay len det] prim
  have w: "length wc = length m" "length wt = ABYTES a"
    and rc: "rc = 0" and written: "written = wc @ wt"
    by simp_all
  from c w written have "c = wc @ wt"
    by (simp add: stored_full)
  with args len det w rc show ?thesis
    by (simp add: encrypt_detached_valid stored_full length_NEW_BUFFER)
qed

lemma encrypt_afternm_length:
  "outcome (crypto_aead_aes256gcm_encrypt_afternm P h (Buffer m) ad_arg npub_arg ctx_arg) = Inr c
     \<Longrightarrow> length c = length m + ABYTES aes256gcm"
  by (auto elim!: encrypt_afternm_Inr simp: length_stored)

lemma encrypt_length:
  "outcome (crypto_aead_encrypt P h a (Buffer m) ad_arg npub_arg key_arg) = Inr c
     \<Longrightarrow> length c = length m + ABYTES a"
  by (auto elim!: encrypt_Inr simp: length_stored)

text \<open>
  C6. When combined encrypt returns a buffer \<open>c\<close> for a message \<open>m\<close>, then
  \<open>length c = length m + ABYTES\<close>, whatever the primitive stored. If the primitive
  keeps \<open>sodium_layout\<close>, detached encrypt on the same arguments returns a cipher text
  of \<open>length m\<close> bytes and a tag of \<open>ABYTES\<close> bytes, and \<open>c\<close> is that cipher text
  followed by that tag: the tag is the last \<open>ABYTES\<close> bytes of \<open>c\<close>. First conjunct:
  the context methods of the file; second: the key methods of each algorithm.
\<close>

theorem combined_is_ciphertext_then_tag:
  "(outcome (crypto_aead_aes256gcm_encrypt_afternm P h (Buffer m) ad_arg npub_arg ctx_arg) = Inr c
      \<longrightarrow> length c = length m + ABYTES aes256gcm \<and>
          (sodium_layout P \<longrightarrow>
             (\<exists>d. outcome (crypto_aead_aes256gcm_encrypt_detached_afternm P h' (Buffer m) ad_arg
                             npub_arg ctx_arg) = Inr d \<and>
                  length (cipherText d) = length m \<and> length (mac d) = ABYTES aes256gcm \<and>
                  c = cipherText d @ mac d \<and> drop (length m) c = mac d))) \<and>
   (outcome (crypto_aead_encrypt P h a (Buffer m') ad_arg' npub_arg' key_arg) = Inr c'
      \<longrightarrow> length c' = length m' + ABYTES a \<and>
          (sodium_layout P \<longrightarrow>
             (\<exists>d. outcome (crypto_aead_encrypt_detached P h' a (Buffer m') ad_arg' npub_arg'
                             key_arg) = Inr d \<and>
                  length (cipherText d) = length m' \<and> length (mac d) = ABYTES a \<and>
                  c' = cipherText d @ mac d \<and> drop (length m') c' = mac d)))"
proof (intro conjI impI)
  assume enc: "outcome (crypto_aead_aes256gcm_encrypt_afternm P h (Buffer m) ad_arg npub_arg
                          ctx_arg) = Inr c"
  then show "length c = length m + ABYTES aes256gcm"
    by (rule encrypt_afternm_length)
  assume "sodium_layout P"
  from combined_is_detached_afternm [OF this enc, of h']
  show "\<exists>d. outcome (crypto_aead_aes256gcm_encrypt_detached_afternm P h' (Buffer m) ad_arg
                       npub_arg ctx_arg) = Inr d \<and>
            length (cipherText d) = length m \<and> length (mac d) = ABYTES aes256gcm \<and>
            c = cipherText d @ mac d \<and> drop (length m) c = mac d"
    by auto
next
  assume enc: "outcome (crypto_aead_encrypt P h a (Buffer m') ad_arg' npub_arg' key_arg) = Inr c'"
  then show "length c' = length m' + ABYTES a"
    by (rule encrypt_length)
  assume "sodium_layout P"
  from combined_is_detached_key [OF this enc, of h']
  show "\<exists>d. outcome (crypto_aead_encrypt_detached P h' a (Buffer m') ad_arg' npub_arg' key_arg)
              = Inr d \<and>
            length (cipherText d) = length m' \<and> length (mac d) = ABYTES a \<and>
            c' = cipherText d @ mac d \<and> drop (length m') c' = mac d"
    by auto
qed

theorem combined_is_ciphertext_then_tag_witness:
  "sodium_layout xor_sodium \<and>
   outcome (crypto_aead_aes256gcm_encrypt_afternm xor_sodium demo_heap (Buffer [1, 2, 3]) Null
      (Buffer demo_npub) (Buffer demo_ctx)) = Inr ([117, 118, 119] @ replicate 16 214) \<and>
   length ([117, 118, 119] @ replicate 16 (214 :: byte)) =
     length [1, 2, 3 :: byte] + ABYTES aes256gcm \<and>
   (\<exists>d. outcome (crypto_aead_aes256gcm_encrypt_detached_afternm xor_sodium demo_heap
            (Buffer [1, 2, 3]) Null (Buffer demo_npub) (Buffer demo_ctx)) = Inr d \<and>
        length (cipherText d) = length [1, 2, 3 :: byte] \<and>
        length (mac d) = ABYTES aes256gcm \<and>
        [117, 118, 119] @ replicate 16 214 = cipherText d @ mac d \<and>
        drop (length [1, 2, 3 :: byte]) ([117, 118, 119] @ replicate 16 214) = mac d) \<and>
   outcome (crypto_aead_encrypt xor_sodium demo_heap chacha20poly1305 (Buffer [1, 2, 3])
      (Buffer []) (Buffer (replicate 8 7)) (Buffer demo_key))
     = Inr ([89, 90, 91] @ replicate 16 102) \<and>
   length ([89, 90, 91] @ replicate 16 (102 :: byte)) =
     length [1, 2, 3 :: byte] + ABYTES chacha20poly1305 \<and>
   (\<exists>d. outcome (crypto_aead_encrypt_detached xor_sodium demo_heap chacha20poly1305
            (Buffer [1, 2, 3]) (Buffer []) (Buffer (replicate 8 7)) (Buffer demo_key)) = Inr d \<and>
        length (cipherText d) = length [1, 2, 3 :: byte] \<and>
        length (mac d) = ABYTES chacha20poly1305 \<and>
        [89, 90, 91] @ replicate 16 102 = cipherText d @ mac d \<and>
        drop (length [1, 2, 3 :: byte]) ([89, 90, 91] @ replicate 16 102) = mac d)"
proof -
  have encrypted:
    "outcome (crypto_aead_aes256gcm_encrypt_afternm xor_sodium demo_heap (Buffer [1, 2, 3]) Null
       (Buffer demo_npub) (Buffer demo_ctx)) = Inr ([117, 118, 119] @ replicate 16 214)"
    "outcome (crypto_aead_encrypt xor_sodium demo_heap chacha20poly1305 (Buffer [1, 2, 3])
       (Buffer []) (Buffer (replicate 8 7)) (Buffer demo_key))
      = Inr ([89, 90, 91] @ replicate 16 102)"
    by code_simp+
  from encrypted xor_sodium_layout
    combined_is_ciphertext_then_tag [where P = xor_sodium and h = demo_heap and h' = demo_heap
      and m = "[1, 2, 3]" and ad_arg = Null and npub_arg = "Buffer demo_npub"
      and ctx_arg = "Buffer demo_ctx" and c = "[117, 118, 119] @ replicate 16 214"
      and a = chacha20poly1305 and m' = "[1, 2, 3]" and ad_arg' = "Buffer []"
      and npub_arg' = "Buffer (replicate 8 7)" and key_arg = "Buffer demo_key"
      and c' = "[89, 90, 91] @ replicate 16 102"]
  show ?thesis by blast
qed

subsection \<open>C9: building a context\<close>

text \<open>
  C9, as stated, fails in its second half: a key of exactly \<open>KEYBYTES\<close> bytes does not
  make \<^verbatim>\<open>beforenm\<close> succeed by itself. Lines 169 to 173 return \<^verbatim>\<open>undefined\<close> when
  the primitive's key expansion returns a code other than 0.
\<close>

theorem beforenm_primitive_failure_counterexample:
  "length demo_key = KEYBYTES aes256gcm \<and>
   crypto_aead_aes256gcm_beforenm failing_sodium demo_heap (Buffer demo_key) =
     \<lparr>calls = [Call_beforenm], outcome = Inl KeySetupFailed\<rparr>"
  by code_simp

text \<open>
  C9, amended. \<^verbatim>\<open>beforenm\<close> fails with \<open>InvalidLength\<close> exactly when the key Buffer
  does not have \<open>KEYBYTES\<close> bytes. For a key of exactly \<open>KEYBYTES\<close> bytes it calls
  the primitive's key expansion: when that returns 0 (libsodium's always does, says the
  comment at line 147) the method returns a context of exactly \<open>sodium_statebytes\<close>
  bytes holding what the primitive stored, and exactly the stored state when the
  primitive filled all of it; when it returns another code the method returns
  \<^verbatim>\<open>undefined\<close> and no context.
\<close>

theorem beforenm_key_length:
  "(outcome (crypto_aead_aes256gcm_beforenm P h (Buffer key)) = Inl InvalidLength
      \<longleftrightarrow> length key \<noteq> KEYBYTES aes256gcm) \<and>
   (length key = KEYBYTES aes256gcm \<and> fst (sodium_beforenm P key) = 0 \<longrightarrow>
      crypto_aead_aes256gcm_beforenm P h (Buffer key) =
        \<lparr>calls = [Call_beforenm],
         outcome = Inr (stored (NEW_BUFFER h 0 (sodium_statebytes P))
                          (snd (sodium_beforenm P key)))\<rparr> \<and>
      length (stored (NEW_BUFFER h 0 (sodium_statebytes P)) (snd (sodium_beforenm P key)))
        = sodium_statebytes P \<and>
      (length (snd (sodium_beforenm P key)) = sodium_statebytes P \<longrightarrow>
         outcome (crypto_aead_aes256gcm_beforenm P h (Buffer key))
           = Inr (snd (sodium_beforenm P key)))) \<and>
   (length key = KEYBYTES aes256gcm \<and> fst (sodium_beforenm P key) \<noteq> 0 \<longrightarrow>
      crypto_aead_aes256gcm_beforenm P h (Buffer key) =
        \<lparr>calls = [Call_beforenm], outcome = Inl KeySetupFailed\<rparr>)"
  by (auto simp: crypto_aead_aes256gcm_beforenm_def ARG_TO_UCHAR_BUFFER_LEN_def threw_def
      Let_def length_stored length_NEW_BUFFER stored_full split: prod.splits)

theorem beforenm_key_length_witness:
  "length (replicate 31 (9 :: byte)) \<noteq> KEYBYTES aes256gcm \<and>
   outcome (crypto_aead_aes256gcm_beforenm xor_sodium demo_heap (Buffer (replicate 31 9)))
     = Inl InvalidLength \<and>
   length demo_key = KEYBYTES aes256gcm \<and> fst (sodium_beforenm xor_sodium demo_key) = 0 \<and>
   length (snd (sodium_beforenm xor_sodium demo_key)) = sodium_statebytes xor_sodium \<and>
   outcome (crypto_aead_aes256gcm_beforenm xor_sodium demo_heap (Buffer demo_key))
     = Inr demo_ctx \<and>
   fst (sodium_beforenm failing_sodium demo_key) \<noteq> 0 \<and>
   crypto_aead_aes256gcm_beforenm failing_sodium demo_heap (Buffer demo_key) =
     \<lparr>calls = [Call_beforenm], outcome = Inl KeySetupFailed\<rparr>"
proof -
  have short: "length (replicate 31 (9 :: byte)) \<noteq> KEYBYTES aes256gcm"
    by simp
  have exact: "length demo_key = KEYBYTES aes256gcm"
    "fst (sodium_beforenm xor_sodium demo_key) = 0"
    "length (snd (sodium_beforenm xor_sodium demo_key)) = sodium_statebytes xor_sodium"
    "fst (sodium_beforenm failing_sodium demo_key) \<noteq> 0"
    by (simp_all add: demo_key_def xor_sodium_def failing_sodium_def)
  have state: "snd (sodium_beforenm xor_sodium demo_key) = demo_ctx"
    by (simp add: xor_sodium_def demo_ctx_def)
  from short exact
    beforenm_key_length [where P = xor_sodium and h = demo_heap and key = "replicate 31 9"]
    beforenm_key_length [where P = xor_sodium and h = demo_heap and key = demo_key]
    beforenm_key_length [where P = failing_sodium and h = demo_heap and key = demo_key]
  have "outcome (crypto_aead_aes256gcm_beforenm xor_sodium demo_heap (Buffer (replicate 31 9)))
          = Inl InvalidLength"
    "outcome (crypto_aead_aes256gcm_beforenm xor_sodium demo_heap (Buffer demo_key))
       = Inr (snd (sodium_beforenm xor_sodium demo_key))"
    "crypto_aead_aes256gcm_beforenm failing_sodium demo_heap (Buffer demo_key) =
       \<lparr>calls = [Call_beforenm], outcome = Inl KeySetupFailed\<rparr>"
    by blast+
  with short exact state show ?thesis
    by simp
qed

subsection \<open>C10: which output buffers are zeroed\<close>

text \<open>
  C10. Combined encrypt zeroes its output buffer before the call: the reply of the
  method is the same for every heap, and after the call the buffer holds what the
  primitive stored and zeros elsewhere. Detached encrypt hands over its two buffers as
  allocated: after a call that stored nothing and returned an error they hold exactly
  the bytes of the uninitialised heap.
\<close>

theorem only_combined_encrypt_zeroes:
  "crypto_aead_aes256gcm_encrypt_afternm P h m_arg ad_arg npub_arg ctx_arg =
     crypto_aead_aes256gcm_encrypt_afternm P h' m_arg ad_arg npub_arg ctx_arg \<and>
   snd (encrypt_afternm_transform P h m ad npub ctx) =
     stored (replicate (ABYTES aes256gcm + length m) 0)
       (snd (sodium_encrypt_afternm P m ad npub ctx)) \<and>
   encrypt_detached_afternm_transform failing_sodium h m ad npub ctx =
     (- 1, map h [0..<length m], map h [length m..<length m + ABYTES aes256gcm])"
proof (intro conjI)
  show "crypto_aead_aes256gcm_encrypt_afternm P h m_arg ad_arg npub_arg ctx_arg =
      crypto_aead_aes256gcm_encrypt_afternm P h' m_arg ad_arg npub_arg ctx_arg"
    unfolding crypto_aead_aes256gcm_encrypt_afternm_def encrypt_afternm_transform_eq
    by (rule refl)
  show "snd (encrypt_afternm_transform P h m ad npub ctx) =
      stored (replicate (ABYTES aes256gcm + length m) 0)
        (snd (sodium_encrypt_afternm P m ad npub ctx))"
    by (simp add: encrypt_afternm_transform_eq split: prod.splits)
  show "encrypt_detached_afternm_transform failing_sodium h m ad npub ctx =
      (- 1, map h [0..<length m], map h [length m..<length m + ABYTES aes256gcm])"
    by (simp add: encrypt_detached_afternm_transform_def failing_sodium_def stored_nothing
        NEW_BUFFER_def)
qed

theorem only_combined_encrypt_zeroes_witness:
  "snd (encrypt_afternm_transform failing_sodium demo_heap [1, 2] None demo_npub demo_ctx) =
     replicate 18 0 \<and>
   encrypt_detached_afternm_transform failing_sodium demo_heap [1, 2] None demo_npub demo_ctx =
     (- 1, replicate 2 170, replicate 16 170)"
proof -
  note only_combined_encrypt_zeroes [where P = failing_sodium and h = demo_heap
      and m = "[1, 2]" and ad = None and npub = demo_npub and ctx = demo_ctx]
  then have
    "snd (encrypt_afternm_transform failing_sodium demo_heap [1, 2] None demo_npub demo_ctx) =
       stored (replicate (ABYTES aes256gcm + length [1, 2 :: byte]) 0)
         (snd (sodium_encrypt_afternm failing_sodium [1, 2] None demo_npub demo_ctx))"
    "encrypt_detached_afternm_transform failing_sodium demo_heap [1, 2] None demo_npub demo_ctx =
       (- 1, map demo_heap [0..<length [1, 2 :: byte]],
        map demo_heap [length [1, 2 :: byte]..<length [1, 2 :: byte] + ABYTES aes256gcm])"
    by blast+
  moreover have
    "stored (replicate (ABYTES aes256gcm + length [1, 2 :: byte]) 0)
       (snd (sodium_encrypt_afternm failing_sodium [1, 2] None demo_npub demo_ctx)) =
     replicate 18 0"
    "map demo_heap [0..<length [1, 2 :: byte]] = replicate 2 170"
    "map demo_heap [length [1, 2 :: byte]..<length [1, 2 :: byte] + ABYTES aes256gcm] =
     replicate 16 170"
    by code_simp+
  ultimately show ?thesis by simp
qed

subsection \<open>C3: a key and the context built from it\<close>

lemma beforenm_Inr:
  assumes "outcome (crypto_aead_aes256gcm_beforenm P h (Buffer key)) = Inr ctx"
  shows "length key = KEYBYTES aes256gcm \<and> fst (sodium_beforenm P key) = 0 \<and>
         ctx = stored (NEW_BUFFER h 0 (sodium_statebytes P)) (snd (sodium_beforenm P key))"
  using assms
  by (auto simp: crypto_aead_aes256gcm_beforenm_def ARG_TO_UCHAR_BUFFER_LEN_def threw_def
      Let_def split: if_splits prod.splits)

lemma sodium_precompute_stateD:
  assumes "sodium_precompute P" "length key = KEYBYTES aes256gcm"
  shows "length (snd (sodium_beforenm P key)) = sodium_statebytes P"
  using assms unfolding sodium_precompute_def by fast

lemma sodium_precompute_encryptD:
  assumes "sodium_precompute P" "length key = KEYBYTES aes256gcm"
    "length npub = NPUBBYTES aes256gcm"
  shows "sodium_encrypt P aes256gcm x ad npub key =
           sodium_encrypt_afternm P x ad npub (snd (sodium_beforenm P key))"
  using assms unfolding sodium_precompute_def by fast

lemma sodium_precompute_encrypt_detachedD:
  assumes "sodium_precompute P" "length key = KEYBYTES aes256gcm"
    "length npub = NPUBBYTES aes256gcm"
  shows "sodium_encrypt_detached P aes256gcm x ad npub key =
           sodium_encrypt_detached_afternm P x ad npub (snd (sodium_beforenm P key))"
  using assms unfolding sodium_precompute_def by fast

lemma built_context:
  assumes pre: "sodium_precompute P"
    and built: "outcome (crypto_aead_aes256gcm_beforenm P h0 (Buffer key)) = Inr ctx"
  shows "length key = KEYBYTES aes256gcm" "length ctx = sodium_statebytes P"
    "ctx = snd (sodium_beforenm P key)"
proof -
  from beforenm_Inr [OF built] show key: "length key = KEYBYTES aes256gcm"
    by simp
  from beforenm_Inr [OF built] sodium_precompute_stateD [OF pre key]
  show "ctx = snd (sodium_beforenm P key)"
    by (simp add: stored_full length_NEW_BUFFER)
  with sodium_precompute_stateD [OF pre key] show "length ctx = sodium_statebytes P"
    by simp
qed

lemma encrypt_key_is_context:
  assumes pre: "sodium_precompute P"
    and built: "outcome (crypto_aead_aes256gcm_beforenm P h0 (Buffer key)) = Inr ctx"
  shows "outcome (crypto_aead_encrypt P h aes256gcm m_arg ad_arg npub_arg (Buffer key)) =
         outcome (crypto_aead_aes256gcm_encrypt_afternm P h' m_arg ad_arg npub_arg (Buffer ctx))"
proof (cases m_arg)
  case Null
  then show ?thesis
    by (simp add: crypto_aead_encrypt_def crypto_aead_aes256gcm_encrypt_afternm_def conv_defs)
next
  case m: (Buffer m)
  note ctx = built_context [OF pre built]
  show ?thesis
  proof (cases npub_arg)
    case Null
    with m show ?thesis
      by (simp add: crypto_aead_encrypt_def crypto_aead_aes256gcm_encrypt_afternm_def conv_defs)
  next
    case (Buffer npub)
    show ?thesis
    proof (cases "length npub = NPUBBYTES aes256gcm")
      case False
      with m Buffer show ?thesis
        by (simp add: crypto_aead_encrypt_def crypto_aead_aes256gcm_encrypt_afternm_def
            conv_defs)
    next
      case True
      from sodium_precompute_encryptD [OF pre ctx(1) True] ctx(3)
      have "sodium_encrypt P aes256gcm m (ARG_TO_UCHAR_BUFFER_OR_NULL ad_arg) npub key =
            sodium_encrypt_afternm P m (ARG_TO_UCHAR_BUFFER_OR_NULL ad_arg) npub ctx"
        by simp
      with m Buffer True ctx(1,2) show ?thesis
        by (simp add: encrypt_valid encrypt_afternm_valid split: prod.splits)
    qed
  qed
qed

lemma encrypt_detached_key_is_context:
  assumes pre: "sodium_precompute P"
    and built: "outcome (crypto_aead_aes256gcm_beforenm P h0 (Buffer key)) = Inr ctx"
  shows "outcome (crypto_aead_encrypt_detached P h aes256gcm m_arg ad_arg npub_arg (Buffer key)) =
         outcome (crypto_aead_aes256gcm_encrypt_detached_afternm P h m_arg ad_arg npub_arg
                    (Buffer ctx))"
proof (cases m_arg)
  case Null
  then show ?thesis
    by (simp add: crypto_aead_encrypt_detached_def
        crypto_aead_aes256gcm_encrypt_detached_afternm_def conv_defs)
next
  case m: (Buffer m)
  note ctx = built_context [OF pre built]
  show ?thesis
  proof (cases npub_arg)
    case Null
    with m show ?thesis
      by (simp add: crypto_aead_encrypt_detached_def
          crypto_aead_aes256gcm_encrypt_detached_afternm_def conv_defs)
  next
    case (Buffer npub)
    show ?thesis
    proof (cases "length npub = NPUBBYTES aes256gcm")
      case False
      with m Buffer show ?thesis
        by (simp add: crypto_aead_encrypt_detached_def
            crypto_aead_aes256gcm_encrypt_detached_afternm_def conv_defs)
    next
      case True
      from sodium_precompute_encrypt_detachedD [OF pre ctx(1) True] ctx(3)
      have "sodium_encrypt_detached P aes256gcm m (ARG_TO_UCHAR_BUFFER_OR_NULL ad_arg) npub key =
            sodium_encrypt_detached_afternm P m (ARG_TO_UCHAR_BUFFER_OR_NULL ad_arg) npub ctx"
        by simp
      with m Buffer True ctx(1,2) show ?thesis
        by (simp add: encrypt_detached_valid encrypt_detached_afternm_valid split: prod.splits)
    qed
  qed
qed

text \<open>
  When the primitive stores the whole cipher text and tag on success, what detached
  encrypt returns does not depend on the heap either.
\<close>

lemma encrypt_detached_afternm_heap:
  assumes rt: "sodium_roundtrip P"
  shows "outcome (crypto_aead_aes256gcm_encrypt_detached_afternm P h m_arg ad_arg npub_arg
                    ctx_arg) =
         outcome (crypto_aead_aes256gcm_encrypt_detached_afternm P h' m_arg ad_arg npub_arg
                    ctx_arg)"
proof (cases "\<exists>m npub ctx. m_arg = Buffer m \<and> npub_arg = Buffer npub \<and> ctx_arg = Buffer ctx \<and>
    length npub = NPUBBYTES aes256gcm \<and> length ctx = sodium_statebytes P")
  case False
  then show ?thesis
    by (auto simp: crypto_aead_aes256gcm_encrypt_detached_afternm_def conv_defs
        split: js_value.splits)
next
  case True
  then obtain m npub ctx where
    args: "m_arg = Buffer m" "npub_arg = Buffer npub" "ctx_arg = Buffer ctx"
    and len: "length npub = NPUBBYTES aes256gcm" "length ctx = sodium_statebytes P"
    by blast
  obtain rc wc wt where
    prim: "sodium_encrypt_detached_afternm P m (ARG_TO_UCHAR_BUFFER_OR_NULL ad_arg) npub ctx
             = (rc, wc, wt)"
    by (cases "sodium_encrypt_detached_afternm P m (ARG_TO_UCHAR_BUFFER_OR_NULL ad_arg) npub ctx")
  show ?thesis
  proof (cases "rc = 0")
    case False
    with args len prim show ?thesis
      by (simp add: encrypt_detached_afternm_valid)
  next
    case True
    with prim sodium_roundtrip_detached_afternmD [OF rt len, of m _ wc wt]
    have "length wc = length m" "length wt = ABYTES aes256gcm"
      by simp_all
    with args len prim True show ?thesis
      by (simp add: encrypt_detached_afternm_valid stored_full length_NEW_BUFFER)
  qed
qed

text \<open>
  C3. Let the primitive keep \<open>sodium_precompute\<close> and \<open>sodium_roundtrip\<close>, and let
  \<open>ctx\<close> be the context \<^verbatim>\<open>beforenm\<close> returns for \<open>key\<close>. Then encrypt with the key
  and encrypt with the context return the same result for the same message,
  associated data and nonce, in combined and in detached mode, on any two heaps; and in
  both modes what encrypt with the key returns, decrypt with the context turns back into
  the message, and the other way round.
\<close>

theorem key_and_context_agree:
  assumes "sodium_precompute P" and "sodium_roundtrip P"
    and "outcome (crypto_aead_aes256gcm_beforenm P h0 (Buffer key)) = Inr ctx"
  shows
  "outcome (crypto_aead_encrypt P h aes256gcm m_arg ad_arg npub_arg (Buffer key)) =
     outcome (crypto_aead_aes256gcm_encrypt_afternm P h' m_arg ad_arg npub_arg (Buffer ctx)) \<and>
   outcome (crypto_aead_encrypt_detached P h aes256gcm m_arg ad_arg npub_arg (Buffer key)) =
     outcome (crypto_aead_aes256gcm_encrypt_detached_afternm P h' m_arg ad_arg npub_arg
                (Buffer ctx)) \<and>
   (outcome (crypto_aead_encrypt P h aes256gcm (Buffer m) ad_arg npub_arg (Buffer key)) = Inr c
      \<longrightarrow> outcome (crypto_aead_aes256gcm_decrypt_afternm P h' (Buffer c) ad_arg npub_arg
                     (Buffer ctx)) = Inr m) \<and>
   (outcome (crypto_aead_aes256gcm_encrypt_afternm P h (Buffer m') ad_arg npub_arg (Buffer ctx))
      = Inr c'
      \<longrightarrow> outcome (crypto_aead_decrypt P h' aes256gcm (Buffer c') ad_arg npub_arg (Buffer key))
            = Inr m') \<and>
   (outcome (crypto_aead_encrypt_detached P h aes256gcm (Buffer m) ad_arg npub_arg (Buffer key))
      = Inr d
      \<longrightarrow> outcome (crypto_aead_aes256gcm_decrypt_detached_afternm P h' (Buffer (cipherText d))
                     (Buffer (mac d)) ad_arg npub_arg (Buffer ctx)) = Inr m) \<and>
   (outcome (crypto_aead_aes256gcm_encrypt_detached_afternm P h (Buffer m') ad_arg npub_arg
               (Buffer ctx)) = Inr d'
      \<longrightarrow> outcome (crypto_aead_decrypt_detached P h' aes256gcm (Buffer (cipherText d'))
                     (Buffer (mac d')) ad_arg npub_arg (Buffer key)) = Inr m')"
proof (intro conjI impI)
  show "outcome (crypto_aead_encrypt P h aes256gcm m_arg ad_arg npub_arg (Buffer key)) =
     outcome (crypto_aead_aes256gcm_encrypt_afternm P h' m_arg ad_arg npub_arg (Buffer ctx))"
    by (rule encrypt_key_is_context [OF assms(1,3)])
  from encrypt_detached_key_is_context [OF assms(1,3), of h m_arg ad_arg npub_arg]
    encrypt_detached_afternm_heap [OF assms(2), of h m_arg ad_arg npub_arg "Buffer ctx" h']
  show "outcome (crypto_aead_encrypt_detached P h aes256gcm m_arg ad_arg npub_arg (Buffer key)) =
     outcome (crypto_aead_aes256gcm_encrypt_detached_afternm P h' m_arg ad_arg npub_arg
                (Buffer ctx))"
    by simp
next
  assume "outcome (crypto_aead_encrypt P h aes256gcm (Buffer m) ad_arg npub_arg (Buffer key))
            = Inr c"
  with encrypt_key_is_context [OF assms(1,3), of h "Buffer m" ad_arg npub_arg h]
  have "outcome (crypto_aead_aes256gcm_encrypt_afternm P h (Buffer m) ad_arg npub_arg
                   (Buffer ctx)) = Inr c"
    by simp
  from roundtrip_afternm [OF assms(2) this, of h']
  show "outcome (crypto_aead_aes256gcm_decrypt_afternm P h' (Buffer c) ad_arg npub_arg
                   (Buffer ctx)) = Inr m"
    by simp
next
  assume "outcome (crypto_aead_aes256gcm_encrypt_afternm P h (Buffer m') ad_arg npub_arg
                     (Buffer ctx)) = Inr c'"
  with encrypt_key_is_context [OF assms(1,3), of h "Buffer m'" ad_arg npub_arg h]
  have "outcome (crypto_aead_encrypt P h aes256gcm (Buffer m') ad_arg npub_arg (Buffer key))
          = Inr c'"
    by simp
  from roundtrip_key [OF assms(2) this, of h']
  show "outcome (crypto_aead_decrypt P h' aes256gcm (Buffer c') ad_arg npub_arg (Buffer key))
          = Inr m'"
    by simp
next
  assume "outcome (crypto_aead_encrypt_detached P h aes256gcm (Buffer m) ad_arg npub_arg
                     (Buffer key)) = Inr d"
  with encrypt_detached_key_is_context [OF assms(1,3), of h "Buffer m" ad_arg npub_arg]
  have "outcome (crypto_aead_aes256gcm_encrypt_detached_afternm P h (Buffer m) ad_arg npub_arg
                   (Buffer ctx)) = Inr d"
    by simp
  from roundtrip_detached_afternm [OF assms(2) this, of h']
  show "outcome (crypto_aead_aes256gcm_decrypt_detached_afternm P h' (Buffer (cipherText d))
                   (Buffer (mac d)) ad_arg npub_arg (Buffer ctx)) = Inr m"
    by simp
next
  assume "outcome (crypto_aead_aes256gcm_encrypt_detached_afternm P h (Buffer m') ad_arg
                     npub_arg (Buffer ctx)) = Inr d'"
  with encrypt_detached_key_is_context [OF assms(1,3), of h "Buffer m'" ad_arg npub_arg]
  have "outcome (crypto_aead_encrypt_detached P h aes256gcm (Buffer m') ad_arg npub_arg
                   (Buffer key)) = Inr d'"
    by simp
  from roundtrip_detached_key [OF assms(2) this, of h']
  show "outcome (crypto_aead_decrypt_detached P h' aes256gcm (Buffer (cipherText d'))
                   (Buffer (mac d')) ad_arg npub_arg (Buffer key)) = Inr m'"
    by simp
qed

theorem key_and_context_agree_witness:
  "sodium_precompute xor_sodium \<and> sodium_roundtrip xor_sodium \<and>
   outcome (crypto_aead_aes256gcm_beforenm xor_sodium demo_heap (Buffer demo_key))
     = Inr demo_ctx \<and>
   outcome (crypto_aead_encrypt xor_sodium demo_heap aes256gcm (Buffer [1, 2, 3]) (Buffer [5])
      (Buffer demo_npub) (Buffer demo_key)) = Inr ([117, 118, 119] @ replicate 16 219) \<and>
   outcome (crypto_aead_aes256gcm_encrypt_afternm xor_sodium (\<lambda>_. 0) (Buffer [1, 2, 3])
      (Buffer [5]) (Buffer demo_npub) (Buffer demo_ctx))
     = Inr ([117, 118, 119] @ replicate 16 219) \<and>
   outcome (crypto_aead_aes256gcm_decrypt_afternm xor_sodium (\<lambda>_. 0)
      (Buffer ([117, 118, 119] @ replicate 16 219)) (Buffer [5]) (Buffer demo_npub)
      (Buffer demo_ctx)) = Inr [1, 2, 3] \<and>
   outcome (crypto_aead_decrypt xor_sodium (\<lambda>_. 0) aes256gcm
      (Buffer ([117, 118, 119] @ replicate 16 219)) (Buffer [5]) (Buffer demo_npub)
      (Buffer demo_key)) = Inr [1, 2, 3] \<and>
   outcome (crypto_aead_encrypt_detached xor_sodium demo_heap aes256gcm (Buffer [1, 2, 3])
      (Buffer [5]) (Buffer demo_npub) (Buffer demo_key))
     = Inr \<lparr>cipherText = [117, 118, 119], mac = replicate 16 219\<rparr> \<and>
   outcome (crypto_aead_aes256gcm_encrypt_detached_afternm xor_sodium (\<lambda>_. 0)
      (Buffer [1, 2, 3]) (Buffer [5]) (Buffer demo_npub) (Buffer demo_ctx))
     = Inr \<lparr>cipherText = [117, 118, 119], mac = replicate 16 219\<rparr> \<and>
   outcome (crypto_aead_aes256gcm_decrypt_detached_afternm xor_sodium (\<lambda>_. 0)
      (Buffer [117, 118, 119]) (Buffer (replicate 16 219)) (Buffer [5]) (Buffer demo_npub)
      (Buffer demo_ctx)) = Inr [1, 2, 3] \<and>
   outcome (crypto_aead_decrypt_detached xor_sodium (\<lambda>_. 0) aes256gcm
      (Buffer [117, 118, 119]) (Buffer (replicate 16 219)) (Buffer [5]) (Buffer demo_npub)
      (Buffer demo_key)) = Inr [1, 2, 3]"
proof -
  have built:
    "outcome (crypto_aead_aes256gcm_beforenm xor_sodium demo_heap (Buffer demo_key))
      = Inr demo_ctx"
    by code_simp
  have encrypted:
    "outcome (crypto_aead_encrypt xor_sodium demo_heap aes256gcm (Buffer [1, 2, 3]) (Buffer [5])
       (Buffer demo_npub) (Buffer demo_key)) = Inr ([117, 118, 119] @ replicate 16 219)"
    "outcome (crypto_aead_encrypt_detached xor_sodium demo_heap aes256gcm (Buffer [1, 2, 3])
       (Buffer [5]) (Buffer demo_npub) (Buffer demo_key))
      = Inr \<lparr>cipherText = [117, 118, 119], mac = replicate 16 219\<rparr>"
    by code_simp+
  note agree = key_and_context_agree [OF xor_sodium_precompute xor_sodium_roundtrip built,
      where h = demo_heap and h' = "\<lambda>_. 0" and m_arg = "Buffer [1, 2, 3]"
        and ad_arg = "Buffer [5]" and npub_arg = "Buffer demo_npub"
        and m = "[1, 2, 3]" and c = "[117, 118, 119] @ replicate 16 219"
        and d = "\<lparr>cipherText = [117, 118, 119], mac = replicate 16 219\<rparr>"]
  from agree encrypted have same:
    "outcome (crypto_aead_aes256gcm_encrypt_afternm xor_sodium (\<lambda>_. 0) (Buffer [1, 2, 3])
       (Buffer [5]) (Buffer demo_npub) (Buffer demo_ctx))
      = Inr ([117, 118, 119] @ replicate 16 219)"
    "outcome (crypto_aead_aes256gcm_encrypt_detached_afternm xor_sodium (\<lambda>_. 0)
       (Buffer [1, 2, 3]) (Buffer [5]) (Buffer demo_npub) (Buffer demo_ctx))
      = Inr \<lparr>cipherText = [117, 118, 119], mac = replicate 16 219\<rparr>"
    by simp_all
  note converse = key_and_context_agree [OF xor_sodium_precompute xor_sodium_roundtrip built,
      where h = "\<lambda>_. 0" and h' = "\<lambda>_. 0" and ad_arg = "Buffer [5]"
        and npub_arg = "Buffer demo_npub"
        and m' = "[1, 2, 3]" and c' = "[117, 118, 119] @ replicate 16 219"
        and d' = "\<lparr>cipherText = [117, 118, 119], mac = replicate 16 219\<rparr>"]
  from agree encrypted have forth:
    "outcome (crypto_aead_aes256gcm_decrypt_afternm xor_sodium (\<lambda>_. 0)
       (Buffer ([117, 118, 119] @ replicate 16 219)) (Buffer [5]) (Buffer demo_npub)
       (Buffer demo_ctx)) = Inr [1, 2, 3]"
    "outcome (crypto_aead_aes256gcm_decrypt_detached_afternm xor_sodium (\<lambda>_. 0)
       (Buffer [117, 118, 119]) (Buffer (replicate 16 219)) (Buffer [5]) (Buffer demo_npub)
       (Buffer demo_ctx)) = Inr [1, 2, 3]"
    by simp_all
  from converse same have other:
    "outcome (crypto_aead_decrypt xor_sodium (\<lambda>_. 0) aes256gcm
       (Buffer ([117, 118, 119] @ replicate 16 219)) (Buffer [5]) (Buffer demo_npub)
       (Buffer demo_key)) = Inr [1, 2, 3]"
    "outcome (crypto_aead_decrypt_detached xor_sodium (\<lambda>_. 0) aes256gcm
       (Buffer [117, 118, 119]) (Buffer (replicate 16 219)) (Buffer [5]) (Buffer demo_npub)
       (Buffer demo_key)) = Inr [1, 2, 3]"
    by simp_all
  from xor_sodium_precompute xor_sodium_roundtrip built encrypted same forth other
  show ?thesis by simp
qed

subsection \<open>C5: availability is reported, not enforced\<close>

lemma probe_irrelevant:
  "sodium_statebytes (P\<lparr>sodium_is_available := v\<rparr>) = sodium_statebytes P"
  "sodium_encrypt_afternm (P\<lparr>sodium_is_available := v\<rparr>) = sodium_encrypt_afternm P"
  "sodium_encrypt_detached_afternm (P\<lparr>sodium_is_available := v\<rparr>) =
     sodium_encrypt_detached_afternm P"
  "sodium_encrypt (P\<lparr>sodium_is_available := v\<rparr>) = sodium_encrypt P"
  "sodium_encrypt_detached (P\<lparr>sodium_is_available := v\<rparr>) = sodium_encrypt_detached P"
  by simp_all

lemma encrypt_never_unsupported:
  "outcome (crypto_aead_aes256gcm_encrypt_afternm P h m_arg ad_arg npub_arg ctx_arg)
     \<noteq> Inl UnsupportedAlgorithm"
  "outcome (crypto_aead_aes256gcm_encrypt_detached_afternm P h m_arg ad_arg npub_arg ctx_arg)
     \<noteq> Inl UnsupportedAlgorithm"
  "outcome (crypto_aead_encrypt P h a m_arg ad_arg npub_arg key_arg) \<noteq> Inl UnsupportedAlgorithm"
  "outcome (crypto_aead_encrypt_detached P h a m_arg ad_arg npub_arg key_arg)
     \<noteq> Inl UnsupportedAlgorithm"
  by (auto simp: crypto_aead_aes256gcm_encrypt_afternm_def
      crypto_aead_aes256gcm_encrypt_detached_afternm_def crypto_aead_encrypt_def
      crypto_aead_encrypt_detached_def conv_defs Let_def
      split: js_value.splits prod.splits)

lemma encrypt_context_dispatch:
  assumes "length npub = NPUBBYTES aes256gcm" "length ctx = sodium_statebytes P"
  shows
    "calls (crypto_aead_aes256gcm_encrypt_afternm P h (Buffer m) ad_arg (Buffer npub)
              (Buffer ctx)) = [Call_encrypt_afternm]"
    "calls (crypto_aead_aes256gcm_encrypt_detached_afternm P h (Buffer m) ad_arg (Buffer npub)
              (Buffer ctx)) = [Call_encrypt_detached_afternm]"
    "fst (sodium_encrypt_afternm P m (ARG_TO_UCHAR_BUFFER_OR_NULL ad_arg) npub ctx) \<noteq> 0 \<Longrightarrow>
       outcome (crypto_aead_aes256gcm_encrypt_afternm P h (Buffer m) ad_arg (Buffer npub)
                  (Buffer ctx)) = Inl EncryptionFailed"
    "fst (sodium_encrypt_detached_afternm P m (ARG_TO_UCHAR_BUFFER_OR_NULL ad_arg) npub ctx) \<noteq> 0
       \<Longrightarrow> outcome (crypto_aead_aes256gcm_encrypt_detached_afternm P h (Buffer m) ad_arg
                      (Buffer npub) (Buffer ctx)) = Inl EncryptionFailed"
  using assms
  by (auto simp: encrypt_afternm_valid encrypt_detached_afternm_valid split: prod.splits)

lemma encrypt_key_dispatch:
  assumes "length npub = NPUBBYTES a" "length key = KEYBYTES a"
  shows
    "calls (crypto_aead_encrypt P h a (Buffer m) ad_arg (Buffer npub) (Buffer key))
       = [Call_encrypt a]"
    "calls (crypto_aead_encrypt_detached P h a (Buffer m) ad_arg (Buffer npub) (Buffer key))
       = [Call_encrypt_detached a]"
    "fst (sodium_encrypt P a m (ARG_TO_UCHAR_BUFFER_OR_NULL ad_arg) npub key) \<noteq> 0 \<Longrightarrow>
       outcome (crypto_aead_encrypt P h a (Buffer m) ad_arg (Buffer npub) (Buffer key))
         = Inl EncryptionFailed"
    "fst (sodium_encrypt_detached P a m (ARG_TO_UCHAR_BUFFER_OR_NULL ad_arg) npub key) \<noteq> 0 \<Longrightarrow>
       outcome (crypto_aead_encrypt_detached P h a (Buffer m) ad_arg (Buffer npub) (Buffer key))
         = Inl EncryptionFailed"
  using assms
  by (auto simp: encrypt_valid encrypt_detached_valid split: prod.splits)

text \<open>
  C5, as stated, fails: with a probe that reports the hardware as missing,
  \<^verbatim>\<open>encrypt_afternm\<close> still calls the transform. Over the test double (the probe alone
  stubbed) it returns the cipher text; over \<open>failing_sodium\<close> it returns what the
  failed transform leads to, \<open>EncryptionFailed\<close>, not \<open>UnsupportedAlgorithm\<close>.
\<close>

theorem encrypt_not_gated_counterexample:
  "\<not> crypto_aead_aes256gcm_is_available (xor_sodium\<lparr>sodium_is_available := 0\<rparr>) \<and>
   crypto_aead_aes256gcm_encrypt_afternm (xor_sodium\<lparr>sodium_is_available := 0\<rparr>) demo_heap
       (Buffer [1, 2, 3]) Null (Buffer demo_npub) (Buffer demo_ctx) =
     \<lparr>calls = [Call_encrypt_afternm],
      outcome = Inr ([117, 118, 119] @ replicate 16 214)\<rparr> \<and>
   \<not> crypto_aead_aes256gcm_is_available failing_sodium \<and>
   crypto_aead_aes256gcm_encrypt_afternm failing_sodium demo_heap
       (Buffer [1, 2, 3]) Null (Buffer demo_npub) (Buffer demo_ctx) =
     \<lparr>calls = [Call_encrypt_afternm], outcome = Inl EncryptionFailed\<rparr>"
  by code_simp

text \<open>
  C5, amended. \<^verbatim>\<open>is_available\<close> reports whether the primitive's probe returns 1. No
  aes256gcm encrypt operation, combined or detached, with a context or with a key,
  consults it: the reply is the same whatever the probe says; with a nonce and a context
  or key of valid lengths the operation calls the primitive transform, and when that
  transform returns a code other than 0 the operation fails with \<open>EncryptionFailed\<close>;
  no encrypt operation fails with \<open>UnsupportedAlgorithm\<close>.
\<close>

theorem encrypt_ignores_availability:
  "crypto_aead_aes256gcm_is_available P = (sodium_is_available P = 1) \<and>
   crypto_aead_aes256gcm_encrypt_afternm (P\<lparr>sodium_is_available := v\<rparr>) h m_arg ad_arg
       npub_arg ctx_arg =
     crypto_aead_aes256gcm_encrypt_afternm P h m_arg ad_arg npub_arg ctx_arg \<and>
   crypto_aead_aes256gcm_encrypt_detached_afternm (P\<lparr>sodium_is_available := v\<rparr>) h m_arg
       ad_arg npub_arg ctx_arg =
     crypto_aead_aes256gcm_encrypt_detached_afternm P h m_arg ad_arg npub_arg ctx_arg \<and>
   crypto_aead_encrypt (P\<lparr>sodium_is_available := v\<rparr>) h aes256gcm m_arg ad_arg npub_arg
       key_arg =
     crypto_aead_encrypt P h aes256gcm m_arg ad_arg npub_arg key_arg \<and>
   crypto_aead_encrypt_detached (P\<lparr>sodium_is_available := v\<rparr>) h aes256gcm m_arg ad_arg
       npub_arg key_arg =
     crypto_aead_encrypt_detached P h aes256gcm m_arg ad_arg npub_arg key_arg \<and>
   (length npub = NPUBBYTES aes256gcm \<and> length ctx = sodium_statebytes P \<longrightarrow>
      calls (crypto_aead_aes256gcm_encrypt_afternm P h (Buffer m) ad_arg (Buffer npub)
               (Buffer ctx)) = [Call_encrypt_afternm] \<and>
      calls (crypto_aead_aes256gcm_encrypt_detached_afternm P h (Buffer m) ad_arg (Buffer npub)
               (Buffer ctx)) = [Call_encrypt_detached_afternm] \<and>
      (fst (sodium_encrypt_afternm P m (ARG_TO_UCHAR_BUFFER_OR_NULL ad_arg) npub ctx) \<noteq> 0 \<longrightarrow>
         outcome (crypto_aead_aes256gcm_encrypt_afternm P h (Buffer m) ad_arg (Buffer npub)
                    (Buffer ctx)) = Inl EncryptionFailed) \<and>
      (fst (sodium_encrypt_detached_afternm P m (ARG_TO_UCHAR_BUFFER_OR_NULL ad_arg) npub ctx)
         \<noteq> 0 \<longrightarrow>
         outcome (crypto_aead_aes256gcm_encrypt_detached_afternm P h (Buffer m) ad_arg
                    (Buffer npub) (Buffer ctx)) = Inl EncryptionFailed)) \<and>
   (length npub = NPUBBYTES aes256gcm \<and> length key = KEYBYTES aes256gcm \<longrightarrow>
      calls (crypto_aead_encrypt P h aes256gcm (Buffer m) ad_arg (Buffer npub) (Buffer key))
        = [Call_encrypt aes256gcm] \<and>
      calls (crypto_aead_encrypt_detached P h aes256gcm (Buffer m) ad_arg (Buffer npub)
               (Buffer key)) = [Call_encrypt_detached aes256gcm] \<and>
      (fst (sodium_encrypt P aes256gcm m (ARG_TO_UCHAR_BUFFER_OR_NULL ad_arg) npub key) \<noteq> 0
         \<longrightarrow>
         outcome (crypto_aead_encrypt P h aes256gcm (Buffer m) ad_arg (Buffer npub)
                    (Buffer key)) = Inl EncryptionFailed) \<and>
      (fst (sodium_encrypt_detached P aes256gcm m (ARG_TO_UCHAR_BUFFER_OR_NULL ad_arg) npub key)
         \<noteq> 0 \<longrightarrow>
         outcome (crypto_aead_encrypt_detached P h aes256gcm (Buffer m) ad_arg (Buffer npub)
                    (Buffer key)) = Inl EncryptionFailed)) \<and>
   outcome (crypto_aead_aes256gcm_encrypt_afternm P h m_arg ad_arg npub_arg ctx_arg)
     \<noteq> Inl UnsupportedAlgorithm \<and>
   outcome (crypto_aead_aes256gcm_encrypt_detached_afternm P h m_arg ad_arg npub_arg ctx_arg)
     \<noteq> Inl UnsupportedAlgorithm \<and>
   outcome (crypto_aead_encrypt P h aes256gcm m_arg ad_arg npub_arg key_arg)
     \<noteq> Inl UnsupportedAlgorithm \<and>
   outcome (crypto_aead_encrypt_detached P h aes256gcm m_arg ad_arg npub_arg key_arg)
     \<noteq> Inl UnsupportedAlgorithm"
proof -
  have probe: "crypto_aead_aes256gcm_is_available P = (sodium_is_available P = 1)"
    by (simp add: crypto_aead_aes256gcm_is_available_def)
  have same1: "crypto_aead_aes256gcm_encrypt_afternm (P\<lparr>sodium_is_available := v\<rparr>) h m_arg
       ad_arg npub_arg ctx_arg =
     crypto_aead_aes256gcm_encrypt_afternm P h m_arg ad_arg npub_arg ctx_arg"
    unfolding crypto_aead_aes256gcm_encrypt_afternm_def encrypt_afternm_transform_def
      probe_irrelevant
    by (rule refl)
  have same2: "crypto_aead_aes256gcm_encrypt_detached_afternm (P\<lparr>sodium_is_available := v\<rparr>) h
       m_arg ad_arg npub_arg ctx_arg =
     crypto_aead_aes256gcm_encrypt_detached_afternm P h m_arg ad_arg npub_arg ctx_arg"
    unfolding crypto_aead_aes256gcm_encrypt_detached_afternm_def
      encrypt_detached_afternm_transform_def probe_irrelevant
    by (rule refl)
  have same3: "crypto_aead_encrypt (P\<lparr>sodium_is_available := v\<rparr>) h aes256gcm m_arg ad_arg
       npub_arg key_arg =
     crypto_aead_encrypt P h aes256gcm m_arg ad_arg npub_arg key_arg"
    unfolding crypto_aead_encrypt_def probe_irrelevant
    by (rule refl)
  have same4: "crypto_aead_encrypt_detached (P\<lparr>sodium_is_available := v\<rparr>) h aes256gcm m_arg
       ad_arg npub_arg key_arg =
     crypto_aead_encrypt_detached P h aes256gcm m_arg ad_arg npub_arg key_arg"
    unfolding crypto_aead_encrypt_detached_def probe_irrelevant
    by (rule refl)
  show ?thesis
  proof (intro conjI impI)
    assume "length npub = NPUBBYTES aes256gcm \<and> length ctx = sodium_statebytes P"
    then have len: "length npub = NPUBBYTES aes256gcm" "length ctx = sodium_statebytes P"
      by simp_all
    show "calls (crypto_aead_aes256gcm_encrypt_afternm P h (Buffer m) ad_arg (Buffer npub)
               (Buffer ctx)) = [Call_encrypt_afternm]"
      by (rule encrypt_context_dispatch(1) [OF len])
    show "calls (crypto_aead_aes256gcm_encrypt_detached_afternm P h (Buffer m) ad_arg
               (Buffer npub) (Buffer ctx)) = [Call_encrypt_detached_afternm]"
      by (rule encrypt_context_dispatch(2) [OF len])
    { assume "fst (sodium_encrypt_afternm P m (ARG_TO_UCHAR_BUFFER_OR_NULL ad_arg) npub ctx)
                \<noteq> 0"
      then show "outcome (crypto_aead_aes256gcm_encrypt_afternm P h (Buffer m) ad_arg
                   (Buffer npub) (Buffer ctx)) = Inl EncryptionFailed"
        by (rule encrypt_context_dispatch(3) [OF len]) }
    { assume "fst (sodium_encrypt_detached_afternm P m (ARG_TO_UCHAR_BUFFER_OR_NULL ad_arg) npub
                ctx) \<noteq> 0"
      then show "outcome (crypto_aead_aes256gcm_encrypt_detached_afternm P h (Buffer m) ad_arg
                   (Buffer npub) (Buffer ctx)) = Inl EncryptionFailed"
        by (rule encrypt_context_dispatch(4) [OF len]) }
  next
    assume "length npub = NPUBBYTES aes256gcm \<and> length key = KEYBYTES aes256gcm"
    then have len: "length npub = NPUBBYTES aes256gcm" "length key = KEYBYTES aes256gcm"
      by simp_all
    show "calls (crypto_aead_encrypt P h aes256gcm (Buffer m) ad_arg (Buffer npub) (Buffer key))
        = [Call_encrypt aes256gcm]"
      by (rule encrypt_key_dispatch(1) [OF len])
    show "calls (crypto_aead_encrypt_detached P h aes256gcm (Buffer m) ad_arg (Buffer npub)
               (Buffer key)) = [Call_encrypt_detached aes256gcm]"
      by (rule encrypt_key_dispatch(2) [OF len])
    { assume "fst (sodium_encrypt P aes256gcm m (ARG_TO_UCHAR_BUFFER_OR_NULL ad_arg) npub key)
                \<noteq> 0"
      then show "outcome (crypto_aead_encrypt P h aes256gcm (Buffer m) ad_arg (Buffer npub)
                    (Buffer key)) = Inl EncryptionFailed"
        by (rule encrypt_key_dispatch(3) [OF len]) }
    { assume "fst (sodium_encrypt_detached P aes256gcm m (ARG_TO_UCHAR_BUFFER_OR_NULL ad_arg)
                npub key) \<noteq> 0"
      then show "outcome (crypto_aead_encrypt_detached P h aes256gcm (Buffer m) ad_arg
                    (Buffer npub) (Buffer key)) = Inl EncryptionFailed"
        by (rule encrypt_key_dispatch(4) [OF len]) }
  qed (rule probe same1 same2 same3 same4 encrypt_never_unsupported)+
qed

theorem encrypt_ignores_availability_witness:
  "length demo_npub = NPUBBYTES aes256gcm \<and> length demo_ctx = sodium_statebytes failing_sodium \<and>
   length demo_key = KEYBYTES aes256gcm \<and>
   \<not> crypto_aead_aes256gcm_is_available failing_sodium \<and>
   fst (sodium_encrypt_afternm failing_sodium [1, 2, 3] (ARG_TO_UCHAR_BUFFER_OR_NULL Null)
          demo_npub demo_ctx) \<noteq> 0 \<and>
   calls (crypto_aead_aes256gcm_encrypt_afternm failing_sodium demo_heap (Buffer [1, 2, 3]) Null
            (Buffer demo_npub) (Buffer demo_ctx)) = [Call_encrypt_afternm] \<and>
   outcome (crypto_aead_aes256gcm_encrypt_afternm failing_sodium demo_heap (Buffer [1, 2, 3])
            Null (Buffer demo_npub) (Buffer demo_ctx)) = Inl EncryptionFailed \<and>
   fst (sodium_encrypt_detached failing_sodium aes256gcm [1, 2, 3]
          (ARG_TO_UCHAR_BUFFER_OR_NULL Null) demo_npub demo_key) \<noteq> 0 \<and>
   calls (crypto_aead_encrypt_detached failing_sodium demo_heap aes256gcm (Buffer [1, 2, 3])
            Null (Buffer demo_npub) (Buffer demo_key)) = [Call_encrypt_detached aes256gcm] \<and>
   outcome (crypto_aead_encrypt_detached failing_sodium demo_heap aes256gcm (Buffer [1, 2, 3])
            Null (Buffer demo_npub) (Buffer demo_key)) = Inl EncryptionFailed"
proof -
  have lengths: "length demo_npub = NPUBBYTES aes256gcm"
    "length demo_ctx = sodium_statebytes failing_sodium"
    "length demo_key = KEYBYTES aes256gcm"
    by (simp_all add: demo_npub_def demo_ctx_def demo_key_def failing_sodium_def)
  have probe: "sodium_is_available failing_sodium \<noteq> 1"
    by (simp add: failing_sodium_def)
  have fails:
    "fst (sodium_encrypt_afternm failing_sodium [1, 2, 3] (ARG_TO_UCHAR_BUFFER_OR_NULL Null)
            demo_npub demo_ctx) \<noteq> 0"
    "fst (sodium_encrypt_detached failing_sodium aes256gcm [1, 2, 3]
            (ARG_TO_UCHAR_BUFFER_OR_NULL Null) demo_npub demo_key) \<noteq> 0"
    by (simp_all add: failing_sodium_def)
  from lengths probe fails
    encrypt_ignores_availability [where P = failing_sodium and h = demo_heap
      and m = "[1, 2, 3]" and ad_arg = Null and npub = demo_npub and ctx = demo_ctx
      and key = demo_key]
  show ?thesis by blast
qed

subsection \<open>C8: the tag of detached decrypt\<close>



end
